theory Spec2Isabelle
  imports Complex_Main
begin

section \<open>JavaScript numbers and truthiness\<close>

text \<open>
  The program is TypeScript; every price, amount and percentage is a JavaScript number.
  Finite numbers are modelled as \<^typ>\<open>real\<close> (rounding of IEEE doubles and overflow of
  finite products are idealised away). Division is the one operation of the modelled code
  that leaves the finite numbers: \<^verbatim>\<open>x / 0\<close> does not raise, it yields \<^verbatim>\<open>Infinity\<close>,
  \<^verbatim>\<open>-Infinity\<close> or \<^verbatim>\<open>NaN\<close>. HOL's \<open>x / 0 = 0\<close> would hide that, so the result of a
  division is a \<open>jsnum\<close>. The divisor zero is taken to be \<^verbatim>\<open>+0\<close>.
\<close>

datatype jsnum = JNum real | JPosInf | JNegInf | JNaN

definition js_div :: "real \<Rightarrow> real \<Rightarrow> jsnum" where
  "js_div a b =
     (if b \<noteq> 0 then JNum (a / b)
      else if a > 0 then JPosInf
      else if a < 0 then JNegInf
      else JNaN)"

fun js_times :: "jsnum \<Rightarrow> real \<Rightarrow> jsnum" where
  "js_times (JNum x) c = JNum (x * c)"
| "js_times JPosInf c = (if c > 0 then JPosInf else if c < 0 then JNegInf else JNaN)"
| "js_times JNegInf c = (if c > 0 then JNegInf else if c < 0 then JPosInf else JNaN)"
| "js_times JNaN c = JNaN"

fun js_ge :: "jsnum \<Rightarrow> real \<Rightarrow> bool" where
  "js_ge (JNum x) r = (x \<ge> r)"
| "js_ge JPosInf r = True"
| "js_ge JNegInf r = False"
| "js_ge JNaN r = False"

text \<open>Truthiness of an optional number: \<^verbatim>\<open>undefined\<close> and \<^verbatim>\<open>0\<close> are falsy.\<close>

fun truthy :: "real option \<Rightarrow> bool" where
  "truthy None = False"
| "truthy (Some v) = (v \<noteq> 0)"

fun truthy_int :: "int option \<Rightarrow> bool" where
  "truthy_int None = False"
| "truthy_int (Some v) = (v \<noteq> 0)"

fun truthy_bool :: "bool option \<Rightarrow> bool" where
  "truthy_bool None = False"
| "truthy_bool (Some b) = b"

text \<open>\<^verbatim>\<open>a || b\<close> on numbers: the left operand when it is truthy, else the right one.\<close>

definition num_or :: "real option \<Rightarrow> real \<Rightarrow> real" where
  "num_or a b = (case a of Some v \<Rightarrow> (if v \<noteq> 0 then v else b) | None \<Rightarrow> b)"

definition str_or :: "string option \<Rightarrow> string option \<Rightarrow> string option" where
  "str_or a b = (case a of Some s \<Rightarrow> (if s \<noteq> [] then Some s else b) | None \<Rightarrow> b)"

text \<open>\<^verbatim>\<open>String.prototype.includes\<close>: the needle occurs as a contiguous substring.\<close>

fun starts_with :: "string \<Rightarrow> string \<Rightarrow> bool" where
  "starts_with s [] = True"
| "starts_with [] (c # cs) = False"
| "starts_with (x # xs) (c # cs) = (x = c \<and> starts_with xs cs)"

fun str_includes :: "string \<Rightarrow> string \<Rightarrow> bool" where
  "str_includes [] needle = (needle = [])"
| "str_includes (x # xs) needle = (starts_with (x # xs) needle \<or> str_includes xs needle)"


section \<open>TradeHistoryEntry\<close>

text \<open>
  \<^verbatim>\<open>TradeHistoryEntry\<close> and its \<^verbatim>\<open>sellConditions\<close>. Optional fields are options.
  Dates are milliseconds since the epoch. The fields the modelled functions never read or
  write (\<^verbatim>\<open>isSimulation\<close>, \<^verbatim>\<open>prediction\<close>, \<^verbatim>\<open>buyTransactionId\<close>, \<^verbatim>\<open>ledgerId\<close>,
  \<^verbatim>\<open>originalTradeId\<close>, \<^verbatim>\<open>watchJobId\<close>, \<^verbatim>\<open>tags\<close>, \<^verbatim>\<open>notes\<close>) live in the record's
  extension slot and are carried through unchanged.
\<close>

record sell_conditions =
  takeProfitPercentage :: "real option"
  stopLossPercentage :: "real option"
  trailingStopPercentage :: "real option"
  trailingStopActivated :: "bool option"
  maxHoldTimeMinutes :: "real option"
  stepLevel :: "int option"
  nextTargetPrice :: "real option"
  currStopPrice :: "real option"

datatype trade_status = Open | Closed | Failed

text \<open>
  The watcher builds its sell reasons with template strings; the model keeps the tag of
  each reason and the numbers interpolated into it.
\<close>

datatype sell_reason =
    MaxHoldTimeReached real
  | StopLossTriggered real
  | TakeProfitReached real
  | SteppedStopTriggered jsnum real
  | TrailingStopTriggered real
  | ForceClosePricingError
  | ForceCloseMessage string

record trade =
  trade_id :: string
  agentId :: string
  tokenMint :: string
  status :: trade_status
  openedAt :: int
  closedAt :: "int option"
  entryPrice :: real
  entryAmount :: real
  entryValue :: real
  exitPrice :: "real option"
  exitAmount :: "real option"
  exitValue :: "real option"
  sellTransactionId :: "string option"
  sellReason :: "sell_reason option"
  realizedPnL :: "real option"
  realizedPnLPercentage :: "jsnum option"
  highestPrice :: "real option"
  lowestPrice :: "real option"
  currentPrice :: "real option"
  lastPriceUpdate :: "int option"
  sellConditions :: sell_conditions
  createdAt :: int
  updatedAt :: int


section \<open>TradeWatcherService\<close>

text \<open>\<^verbatim>\<open>((currentPrice - entryPrice) / entryPrice) * 100\<close>, as JavaScript evaluates it.\<close>

definition priceChangePercent_js :: "real \<Rightarrow> real \<Rightarrow> jsnum" where
  "priceChangePercent_js price entry = js_times (js_div (price - entry) entry) 100"

text \<open>
  \<^verbatim>\<open>updateTrailingStopLoss(trade, currentPrice)\<close> mutates the trade and returns
  \<^verbatim>\<open>{activated, updated}\<close>; the model returns the trade after the call and the two flags.
\<close>

definition updateTrailingStopLoss :: "trade \<Rightarrow> real \<Rightarrow> trade \<times> bool \<times> bool" where
  "updateTrailingStopLoss trade price =
     (let conditions = sellConditions trade in
      if \<not> truthy (takeProfitPercentage conditions) \<or> \<not> truthy (trailingStopPercentage conditions)
      then (trade, False, False)
      else
        let raised = (\<not> truthy (highestPrice trade) \<or> price > the (highestPrice trade));
            trade1 = (if raised then trade\<lparr>highestPrice := Some price\<rparr> else trade);
            tpPerc = the (takeProfitPercentage conditions) / 100;
            trailPerc = the (trailingStopPercentage conditions) / 100
        in
          if \<not> truthy_bool (trailingStopActivated conditions) then
            (if js_ge (priceChangePercent_js price (entryPrice trade)) (the (takeProfitPercentage conditions))
             then (trade1\<lparr>sellConditions := conditions
                       \<lparr>trailingStopActivated := Some True,
                        stepLevel := Some 1,
                        currStopPrice := Some (price * (1 - trailPerc)),
                        nextTargetPrice := Some (price * (1 + tpPerc))\<rparr>\<rparr>, True, True)
             else (trade1, False, raised))
          else if truthy (nextTargetPrice conditions) then
            (if price \<ge> the (nextTargetPrice conditions)
             then (trade1\<lparr>sellConditions := conditions
                       \<lparr>stepLevel := Some ((if truthy_int (stepLevel conditions)
                                             then the (stepLevel conditions) else 1) + 1),
                        currStopPrice := Some (price * (1 - trailPerc)),
                        nextTargetPrice := Some (price * (1 + tpPerc))\<rparr>\<rparr>, True, True)
             else (trade1, True, raised))
          else (trade1, True, raised))"

text \<open>
  \<^verbatim>\<open>checkSellConditions(trade, currentPrice)\<close>; \<open>now\<close> is the value of \<^verbatim>\<open>Date.now()\<close>
  it reads. \<open>None\<close> is \<^verbatim>\<open>{shouldSell: false}\<close>, \<open>Some r\<close> is \<^verbatim>\<open>{shouldSell: true, reason}\<close>.
\<close>

definition holdTimeMinutes :: "int \<Rightarrow> trade \<Rightarrow> real" where
  "holdTimeMinutes now trade = real_of_int (now - openedAt trade) / (1000 * 60)"

definition priceChangePercent :: "trade \<Rightarrow> real \<Rightarrow> real" where
  "priceChangePercent trade price =
     (if entryPrice trade > 0 then ((price - entryPrice trade) / entryPrice trade) * 100 else 0)"

definition checkSellConditions :: "int \<Rightarrow> trade \<Rightarrow> real \<Rightarrow> sell_reason option" where
  "checkSellConditions now trade price =
     (let conditions = sellConditions trade;
          pct = priceChangePercent trade price;
          held = holdTimeMinutes now trade
      in
        if truthy (maxHoldTimeMinutes conditions) \<and> held \<ge> the (maxHoldTimeMinutes conditions)
          then Some (MaxHoldTimeReached held)
        else if truthy (stopLossPercentage conditions) \<and> pct \<le> - the (stopLossPercentage conditions)
          then Some (StopLossTriggered pct)
        else if truthy (takeProfitPercentage conditions) \<and> \<not> truthy (trailingStopPercentage conditions)
                \<and> pct \<ge> the (takeProfitPercentage conditions)
          then Some (TakeProfitReached pct)
        else if truthy_bool (trailingStopActivated conditions) \<and> truthy (currStopPrice conditions) then
          (if price \<le> the (currStopPrice conditions)
           then Some (SteppedStopTriggered (priceChangePercent_js price (entryPrice trade))
                        (the (currStopPrice conditions)))
           else None)
        else if truthy (trailingStopPercentage conditions) \<and> \<not> truthy (takeProfitPercentage conditions)
                \<and> truthy (highestPrice trade) then
          (let trailingDropPercent = ((price - the (highestPrice trade)) / the (highestPrice trade)) * 100
           in if trailingDropPercent \<le> - the (trailingStopPercentage conditions)
              then Some (TrailingStopTriggered trailingDropPercent) else None)
        else None)"

text \<open>
  A call of an external collaborator either throws or returns. The swap backend's reply
  carries the fields \<^verbatim>\<open>executeSell\<close> and \<^verbatim>\<open>TradeExecutor.execute\<close> read from it.
\<close>

datatype 'a io = Throws | Returns 'a

record swap_result =
  success :: bool
  message :: "string option"
  data_txid :: "string option"
  swapResponse_txid :: "string option"
  swapResponse_transactionId :: "string option"
  rate_executionPrice :: "real option"
  rate_amountIn :: "real option"

record close_params =
  cp_tradeId :: string
  cp_exitPrice :: real
  cp_exitAmount :: real
  cp_sellTransactionId :: "string option"
  cp_sellReason :: "sell_reason option"

text \<open>
  What the watcher does to the outside world while it evaluates one trade, in order:
  swap-backend sells, \<^verbatim>\<open>closeTrade\<close> and \<^verbatim>\<open>updateTrade\<close> calls on the trade history
  service, and the \<^verbatim>\<open>price_update\<close> event.
\<close>

datatype effect =
    PerformSwapSell string real
  | CloseTrade close_params
  | UpdateTrade trade
  | EmitPriceUpdate string real

text \<open>
  \<^verbatim>\<open>executeSell(trade, reason, currentPrice)\<close>. \<open>processing\<close> is the set
  \<^verbatim>\<open>processingTrades\<close> at the call (the call adds the id and removes it again in its
  \<^verbatim>\<open>finally\<close>); \<open>swap\<close> is what \<^verbatim>\<open>performSwap\<close> does when called.
\<close>

definition executeSell :: "string set \<Rightarrow> swap_result io \<Rightarrow> trade \<Rightarrow> sell_reason \<Rightarrow> real \<Rightarrow> effect list" where
  "executeSell processing swap trade reason price =
     (if trade_id trade \<in> processing then []
      else PerformSwapSell (tokenMint trade) (entryAmount trade) #
        (case swap of
           Throws \<Rightarrow> []
         | Returns result \<Rightarrow>
             if success result then
               [CloseTrade \<lparr>cp_tradeId = trade_id trade,
                  cp_exitPrice = num_or (rate_executionPrice result) (num_or (Some price) 0),
                  cp_exitAmount = num_or (rate_amountIn result) (entryAmount trade),
                  cp_sellTransactionId =
                    str_or (swapResponse_txid result)
                      (str_or (swapResponse_transactionId result)
                        (str_or (data_txid result) (Some ''unknown_tx''))),
                  cp_sellReason = Some reason\<rparr>]
             else
               (case message result of
                  None \<Rightarrow> []
                | Some m \<Rightarrow>
                    if m \<noteq> [] \<and> (str_includes m ''No token balance''
                                  \<or> str_includes m ''insufficient funds''
                                  \<or> str_includes m ''Insufficient Paper'')
                    then [CloseTrade \<lparr>cp_tradeId = trade_id trade,
                            cp_exitPrice = num_or (Some price) 0,
                            cp_exitAmount = 0,
                            cp_sellTransactionId = None,
                            cp_sellReason = Some (ForceCloseMessage m)\<rparr>]
                    else [])))"

text \<open>
  The environment of one \<^verbatim>\<open>evaluateTrade\<close> call (the function itself is given with the
  binary64 functions below): the clock readings, what the price
  cache answers for the trade's token (\<^verbatim>\<open>getCachedPrice\<close> catches every error of the
  cache and answers \<^verbatim>\<open>null\<close>, here \<open>None\<close>), the negative price cache, the in-flight set
  and the swap backend.
\<close>

record watch_env =
  now_evaluate :: int
  now_priceUpdate :: int
  now_check :: int
  getCachedPrice :: "real option"
  hasPriceError :: bool
  processingTrades :: "string set"
  performSwap :: "swap_result io"



section \<open>TradeHistoryService\<close>

text \<open>
  The Redis-backed store: the trade documents by id, the two status sets and the agent and
  token indices. The store is taken to answer every command (no connection errors), and
  the 90-day expiry of its keys is outside the model.
\<close>

record store =
  trades :: "string \<rightharpoonup> trade"
  open_trades :: "string set"
  closed_trades :: "string set"
  agent_trades :: "string \<Rightarrow> string set"
  token_trades :: "string \<Rightarrow> string set"

text \<open>
  A trade is stored as \<^verbatim>\<open>JSON.stringify(trade)\<close> and read back with \<^verbatim>\<open>JSON.parse\<close>:
  a number that is not finite is written as \<^verbatim>\<open>null\<close>.
\<close>

definition json_trade :: "trade \<Rightarrow> trade" where
  "json_trade t =
     t\<lparr>realizedPnLPercentage :=
         (case realizedPnLPercentage t of Some (JNum x) \<Rightarrow> Some (JNum x) | _ \<Rightarrow> None)\<rparr>"

definition getTrade :: "store \<Rightarrow> string \<Rightarrow> trade option" where
  "getTrade st tradeId = trades st tradeId"

definition storeTrade :: "store \<Rightarrow> trade \<Rightarrow> store" where
  "storeTrade st t =
     st\<lparr>trades := (trades st)(trade_id t \<mapsto> json_trade t),
        agent_trades := (agent_trades st)(agentId t := insert (trade_id t) (agent_trades st (agentId t))),
        token_trades := (token_trades st)(tokenMint t := insert (trade_id t) (token_trades st (tokenMint t))),
        open_trades :=
          (if status t = Open then insert (trade_id t) (open_trades st)
           else if status t = Closed then open_trades st - {trade_id t}
           else open_trades st),
        closed_trades :=
          (if status t = Open then closed_trades st - {trade_id t}
           else if status t = Closed then insert (trade_id t) (closed_trades st)
           else closed_trades st)\<rparr>"

text \<open>\<^verbatim>\<open>closeTrade(params)\<close>; \<open>now\<close> is its \<^verbatim>\<open>new Date()\<close>. \<open>None\<close> is \<^verbatim>\<open>null\<close>.\<close>

definition closeTrade :: "store \<Rightarrow> int \<Rightarrow> close_params \<Rightarrow> trade option \<times> store" where
  "closeTrade st now params =
     (case getTrade st (cp_tradeId params) of
        None \<Rightarrow> (None, st)
      | Some t \<Rightarrow>
          let ev = cp_exitPrice params * cp_exitAmount params;
              pnl = ev - entryValue t;
              t' = t\<lparr>status := Closed,
                     closedAt := Some now,
                     exitPrice := Some (cp_exitPrice params),
                     exitAmount := Some (cp_exitAmount params),
                     exitValue := Some ev,
                     sellTransactionId :=
                       (case cp_sellTransactionId params of None \<Rightarrow> sellTransactionId t | Some x \<Rightarrow> Some x),
                     sellReason :=
                       (case cp_sellReason params of None \<Rightarrow> sellReason t | Some r \<Rightarrow> Some r),
                     realizedPnL := Some pnl,
                     realizedPnLPercentage := Some (js_times (js_div pnl (entryValue t)) 100),
                     updatedAt := now\<rparr>
          in (Some t', storeTrade st t'))"

text \<open>
  \<^verbatim>\<open>updateTradePrice(tradeId, currentPrice)\<close>; \<open>now1\<close> and \<open>now2\<close> are its two
  \<^verbatim>\<open>new Date()\<close> readings.
\<close>

definition updateTradePrice :: "store \<Rightarrow> int \<Rightarrow> int \<Rightarrow> string \<Rightarrow> real \<Rightarrow> store" where
  "updateTradePrice st now1 now2 tradeId price =
     (case getTrade st tradeId of
        None \<Rightarrow> st
      | Some t \<Rightarrow>
          if status t \<noteq> Open then st
          else
            let t1 = t\<lparr>currentPrice := Some price, lastPriceUpdate := Some now1\<rparr>;
                t2 = (if \<not> truthy (highestPrice t1) \<or> price > the (highestPrice t1)
                      then t1\<lparr>highestPrice := Some price\<rparr> else t1);
                t3 = (if \<not> truthy (lowestPrice t2) \<or> price < the (lowestPrice t2)
                      then t2\<lparr>lowestPrice := Some price\<rparr> else t2)
            in storeTrade st (t3\<lparr>updatedAt := now2\<rparr>))"


text \<open>
  \<^verbatim>\<open>createTrade(params)\<close>; \<open>now\<close> is its \<^verbatim>\<open>new Date()\<close> and \<open>tradeId\<close> the id it
  draws (\<^verbatim>\<open>trade_<time>_<random>\<close>). A missing \<^verbatim>\<open>sellConditions\<close> is \<^verbatim>\<open>{}\<close>.
\<close>

record create_params =
  p_agentId :: string
  p_tokenMint :: string
  p_entryPrice :: real
  p_entryAmount :: real
  p_sellConditions :: "sell_conditions option"

definition empty_conditions :: sell_conditions where
  "empty_conditions =
     \<lparr>takeProfitPercentage = None, stopLossPercentage = None, trailingStopPercentage = None,
      trailingStopActivated = None, maxHoldTimeMinutes = None, stepLevel = None,
      nextTargetPrice = None, currStopPrice = None\<rparr>"

definition new_trade :: "int \<Rightarrow> string \<Rightarrow> create_params \<Rightarrow> trade" where
  "new_trade now tradeId params =
     \<lparr>trade_id = tradeId, agentId = p_agentId params, tokenMint = p_tokenMint params,
      status = Open, openedAt = now, closedAt = None,
      entryPrice = p_entryPrice params, entryAmount = p_entryAmount params,
      entryValue = p_entryPrice params * p_entryAmount params,
      exitPrice = None, exitAmount = None, exitValue = None,
      sellTransactionId = None, sellReason = None,
      realizedPnL = None, realizedPnLPercentage = None,
      highestPrice = Some (p_entryPrice params), lowestPrice = Some (p_entryPrice params),
      currentPrice = Some (p_entryPrice params), lastPriceUpdate = Some now,
      sellConditions = (case p_sellConditions params of None \<Rightarrow> empty_conditions | Some c \<Rightarrow> c),
      createdAt = now, updatedAt = now\<rparr>"

definition createTrade :: "store \<Rightarrow> int \<Rightarrow> string \<Rightarrow> create_params \<Rightarrow> trade \<times> store" where
  "createTrade st now tradeId params =
     (new_trade now tradeId params, storeTrade st (new_trade now tradeId params))"

definition empty_store :: store where
  "empty_store =
     \<lparr>trades = Map.empty, open_trades = {}, closed_trades = {},
      agent_trades = (\<lambda>_. {}), token_trades = (\<lambda>_. {})\<rparr>"


section \<open>MLPredictionService\<close>

record prediction_result =
  taskType :: string
  classLabel :: "string option"
  probability :: "real option"

record prediction_outcome = prediction_result +
  confidence :: real
  approved :: bool

text \<open>
  \<^verbatim>\<open>predict(tokenMint)\<close>; \<open>reply\<close> is what \<^verbatim>\<open>httpClient.predictTrade\<close> does (a network
  failure throws).
\<close>

definition predict :: "prediction_result io \<Rightarrow> prediction_outcome" where
  "predict reply =
     (case reply of
        Returns result \<Rightarrow>
          let conf = num_or (probability result) 0 * 100;
              ok = (classLabel result = Some ''good'' \<and> conf \<ge> 65)
          in \<lparr>taskType = taskType result, classLabel = classLabel result,
              probability = probability result, confidence = conf, approved = ok\<rparr>
      | Throws \<Rightarrow>
          \<lparr>taskType = ''classification'', classLabel = Some ''unknown'',
           probability = Some 0, confidence = 0, approved = False\<rparr>)"


section \<open>RedisCacheService\<close>

text \<open>
  The keys of the cache the modelled code touches. Every key carries the instant
  (milliseconds since the epoch) at which Redis expires it; a key is there at \<open>now\<close> when
  \<open>now\<close> is before that instant. A set key that is not there is the empty set. The cache
  is taken to answer every command, except where a failure is a parameter.
\<close>

record cache =
  processed_tokens :: "string set \<times> int"
  prediction_failed :: "string set \<times> int"
  prediction_retry :: "string \<rightharpoonup> int \<times> int"
  pending_trade :: "string \<rightharpoonup> int"
  mindmap_keys :: "string \<rightharpoonup> int"

definition DEFAULT_TTL :: int where "DEFAULT_TTL = 1800"
definition RETRY_TTL :: int where "RETRY_TTL = 3600"
definition LOCK_TTL :: int where "LOCK_TTL = 60"

definition isInSet :: "int \<Rightarrow> string set \<times> int \<Rightarrow> string \<Rightarrow> bool" where
  "isInSet now s v = (now < snd s \<and> v \<in> fst s)"

definition addToSet :: "int \<Rightarrow> string set \<times> int \<Rightarrow> string \<Rightarrow> int \<Rightarrow> string set \<times> int" where
  "addToSet now s v ttl = ((if now < snd s then insert v (fst s) else {v}), now + ttl * 1000)"

definition isTokenProcessed :: "int \<Rightarrow> cache \<Rightarrow> string \<Rightarrow> bool" where
  "isTokenProcessed now c token = isInSet now (processed_tokens c) token"

definition markTokenProcessed :: "int \<Rightarrow> cache \<Rightarrow> string \<Rightarrow> cache" where
  "markTokenProcessed now c token =
     c\<lparr>processed_tokens := addToSet now (processed_tokens c) token DEFAULT_TTL\<rparr>"

definition deleteMindmapData :: "cache \<Rightarrow> string \<Rightarrow> cache" where
  "deleteMindmapData c token = c\<lparr>mindmap_keys := (mindmap_keys c)(token := None)\<rparr>"

definition getPredictionRetryCount :: "int \<Rightarrow> cache \<Rightarrow> string \<Rightarrow> int" where
  "getPredictionRetryCount now c token =
     (case prediction_retry c token of
        None \<Rightarrow> 0
      | Some (n, e) \<Rightarrow> if now < e then n else 0)"

definition incrementPredictionRetryCount :: "int \<Rightarrow> cache \<Rightarrow> string \<Rightarrow> int \<times> cache" where
  "incrementPredictionRetryCount now c token =
     (let newCount = getPredictionRetryCount now c token + 1
      in (newCount, c\<lparr>prediction_retry := (prediction_retry c)(token \<mapsto> (newCount, now + RETRY_TTL * 1000))\<rparr>))"

definition markPredictionFailed :: "int \<Rightarrow> cache \<Rightarrow> string \<Rightarrow> cache" where
  "markPredictionFailed now c token =
     c\<lparr>prediction_failed := addToSet now (prediction_failed c) token RETRY_TTL\<rparr>"

text \<open>
  \<^verbatim>\<open>acquirePendingTradeLock\<close> is one \<^verbatim>\<open>SET key 1 NX EX 60\<close>; \<open>redisFails\<close> says that
  the command throws, which the function answers with \<^verbatim>\<open>false\<close>.
\<close>

definition acquirePendingTradeLock :: "bool \<Rightarrow> int \<Rightarrow> cache \<Rightarrow> string \<Rightarrow> bool \<times> cache" where
  "acquirePendingTradeLock redisFails now c token =
     (if redisFails then (False, c)
      else
        (case pending_trade c token of
           Some e \<Rightarrow>
             if now < e then (False, c)
             else (True, c\<lparr>pending_trade := (pending_trade c)(token \<mapsto> now + LOCK_TTL * 1000)\<rparr>)
         | None \<Rightarrow> (True, c\<lparr>pending_trade := (pending_trade c)(token \<mapsto> now + LOCK_TTL * 1000)\<rparr>)))"

definition releasePendingTradeLock :: "cache \<Rightarrow> string \<Rightarrow> cache" where
  "releasePendingTradeLock c token = c\<lparr>pending_trade := (pending_trade c)(token := None)\<rparr>"


definition empty_cache :: cache where
  "empty_cache =
     \<lparr>processed_tokens = ({}, 0), prediction_failed = ({}, 0),
      prediction_retry = Map.empty, pending_trade = Map.empty, mindmap_keys = Map.empty\<rparr>"


section \<open>TradeExecutor\<close>

text \<open>
  Modelled from the spec: the declarations of \<^verbatim>\<open>RiskManagementConfig\<close> and
  \<^verbatim>\<open>TradeRequest\<close> among the sources predate the executor modelled here and lack the
  optional \<^verbatim>\<open>trailingStopPercentage\<close> it reads; the spec lists it as the optional
  \<^verbatim>\<open>risk.trailingStopPct\<close>.
\<close>

record risk_config =
  rc_takeProfitPercentage :: real
  rc_stopLossPercentage :: real
  rc_trailingStopEnabled :: bool
  rc_trailingStopPercentage :: "real option"

record trade_request =
  rq_tokenMint :: string
  rq_amount :: real
  rq_riskConfig :: risk_config

record watch_config =
  wc_takeProfitPercentage :: real
  wc_stopLossPercentage :: real
  wc_enableTrailingStop :: bool
  wc_trailingStopPercentage :: "real option"
  wc_maxHoldTimeMinutes :: real

text \<open>The request \<^verbatim>\<open>execute\<close> hands to \<^verbatim>\<open>ledgerTools.performSwap\<close> (action \<^verbatim>\<open>buy\<close>).\<close>

record swap_request =
  sw_amount :: real
  sw_mint :: string
  sw_watchConfig :: watch_config

datatype trade_error = SwapFailed string | TradeExecutionError

record trade_result =
  tr_success :: bool
  tr_tokenMint :: string
  tr_transactionSignature :: "string option"
  tr_error :: "trade_error option"

text \<open>
  \<^verbatim>\<open>TradeExecutor.execute(trade)\<close>, the version that swaps through
  \<^verbatim>\<open>AgentLedgerTools\<close>. It returns the result, the cache after the call and the swap
  requests it sent to the backend.
\<close>

definition execute :: "int \<Rightarrow> cache \<Rightarrow> swap_result io \<Rightarrow> trade_request
    \<Rightarrow> trade_result \<times> cache \<times> swap_request list" where
  "execute now c swap req =
     (let risk = rq_riskConfig req;
          sent = \<lparr>sw_amount = rq_amount req, sw_mint = rq_tokenMint req,
                  sw_watchConfig =
                    \<lparr>wc_takeProfitPercentage = rc_takeProfitPercentage risk,
                     wc_stopLossPercentage = rc_stopLossPercentage risk,
                     wc_enableTrailingStop = rc_trailingStopEnabled risk,
                     wc_trailingStopPercentage =
                       (if rc_trailingStopEnabled risk
                        then Some (num_or (rc_trailingStopPercentage risk) (rc_stopLossPercentage risk))
                        else None),
                     wc_maxHoldTimeMinutes = 60\<rparr>\<rparr>
      in
        case swap of
          Throws \<Rightarrow>
            (\<lparr>tr_success = False, tr_tokenMint = rq_tokenMint req,
              tr_transactionSignature = None, tr_error = Some TradeExecutionError\<rparr>, c, [sent])
        | Returns result \<Rightarrow>
            if \<not> success result then
              (\<lparr>tr_success = False, tr_tokenMint = rq_tokenMint req,
                tr_transactionSignature = None,
                tr_error = Some (SwapFailed (case str_or (message result) (Some ''Swap execution failed'')
                                             of Some m \<Rightarrow> m | None \<Rightarrow> []))\<rparr>, c, [sent])
            else
              (\<lparr>tr_success = True, tr_tokenMint = rq_tokenMint req,
                tr_transactionSignature = str_or (data_txid result) (swapResponse_txid result),
                tr_error = None\<rparr>,
               deleteMindmapData (markTokenProcessed now c (rq_tokenMint req)) (rq_tokenMint req),
               [sent]))"


section \<open>BotCoreEngine\<close>

text \<open>
  The engine's counters and cache, and the tokens for which it has called the prediction
  service and the swap requests it has caused, oldest first.
\<close>

record bot =
  bot_cache :: cache
  tokensEvaluated :: nat
  tradesExecuted :: nat
  predictCalls :: "string list"
  swapCalls :: "swap_request list"

text \<open>
  The collaborators of one evaluation: whether the injected filter engine passes the
  mindmap data, what the prediction endpoint does, what the swap backend does, and the
  engine's trading and risk configuration.
\<close>

record eval_env =
  filterPasses :: bool
  predictTrade :: "prediction_result io"
  buySwap :: "swap_result io"
  buyAmount :: real
  risk :: risk_config

definition MAX_PREDICTION_RETRIES :: int where "MAX_PREDICTION_RETRIES = 3"

definition evaluateAndExecute :: "int \<Rightarrow> eval_env \<Rightarrow> bot \<Rightarrow> string \<Rightarrow> bot" where
  "evaluateAndExecute now env b token =
     (let b1 = b\<lparr>tokensEvaluated := tokensEvaluated b + 1\<rparr> in
      if \<not> filterPasses env then b1
      else
        let predictionResult = predict (predictTrade env);
            b2 = b1\<lparr>predictCalls := predictCalls b1 @ [token]\<rparr>
        in
          if \<not> approved predictionResult then
            (let (newRetryCount, c1) = incrementPredictionRetryCount now (bot_cache b2) token in
             if newRetryCount \<ge> MAX_PREDICTION_RETRIES
             then b2\<lparr>bot_cache := markPredictionFailed now c1 token\<rparr>
             else b2\<lparr>bot_cache := c1\<rparr>)
          else
            (let (tradeResult, c1, sent) =
                   execute now (bot_cache b2) (buySwap env)
                     \<lparr>rq_tokenMint = token, rq_amount = buyAmount env, rq_riskConfig = risk env\<rparr>;
                 b3 = b2\<lparr>bot_cache := c1, swapCalls := swapCalls b2 @ sent\<rparr>
             in if tr_success tradeResult then b3\<lparr>tradesExecuted := tradesExecuted b3 + 1\<rparr> else b3))"

text \<open>
  \<^verbatim>\<open>processToken(tokenMint, providedMindmapData)\<close>; \<open>haveMindmap\<close> says that mindmap
  data was provided or is in the cache.
\<close>

definition processToken :: "int \<Rightarrow> eval_env \<Rightarrow> bool \<Rightarrow> bot \<Rightarrow> string \<Rightarrow> bot" where
  "processToken now env haveMindmap b token =
     (if isTokenProcessed now (bot_cache b) token then b
      else if isInSet now (prediction_failed (bot_cache b)) token then b
      else if \<not> haveMindmap then b
      else evaluateAndExecute now env b token)"


section \<open>MindmapFilterEngine\<close>




datatype signal = VIRAL_SPIKE | SMART_MONEY | HIGH_CONSENSUS

record filter_metrics =
  fm_totalVolume :: real
  fm_connectedKOLs :: real
  fm_avgInfluenceScore :: real
  fm_totalTrades :: real
  fm_viralVelocity :: "real option"
  fm_weightedVolume :: "real option"
  fm_consensusScore :: "real option"

datatype filter_reason =
    NativeSol
  | VolumeBelowMinimum real real
  | KOLsBelowMinimum real real
  | TradesBelowMinimum real real
  | InfluenceBelowMinimum real real
  | NoPriceData
  | NoTokenSupply
  | MarketCapBelowMinimum real real
  | OnChainVerificationError

record filter_result =
  passed :: bool
  reason :: "filter_reason option"
  metrics :: filter_metrics
  signals :: "signal list option"













section \<open>Binary64 arithmetic\<close>

text \<open>
  The watcher decides by comparing computed percentages with thresholds, and the rounding
  of a double can move a computed value across a threshold: for entry price 100 and price
  158 the code computes 57.99999999999999 percent, not 58. Where a statement turns on such
  a comparison, the exact functions above are not what the code computes, so the
  trailing-stop functions are given a second time, with every arithmetic result rounded as
  IEEE 754 binary64 rounds it.

  \<open>round64\<close> rounds a real to the nearest binary64 number, ties to even: the magnitude is
  scaled so that its leading binary digit has weight \<open>2^52\<close>, rounded to an integer, and
  scaled back. \<open>binary_exponent a\<close> is the \<open>e\<close> with \<open>2^e \<le> a < 2^(e+1)\<close> for a positive
  \<open>a\<close>. Overflow to infinity and the subnormal range are not modelled.
\<close>

fun ilog2 :: "nat \<Rightarrow> nat" where
  "ilog2 n = (if n < 2 then 0 else Suc (ilog2 (n div 2)))"

declare ilog2.simps [simp del]

definition binary_exponent :: "real \<Rightarrow> int" where
  "binary_exponent a =
     (if 1 \<le> a then int (ilog2 (nat \<lfloor>a\<rfloor>))
      else - int (Suc (ilog2 (nat (\<lceil>1 / a\<rceil> - 1)))))"

definition pow2 :: "int \<Rightarrow> real" where
  "pow2 k = (if 0 \<le> k then 2 ^ nat k else 1 / 2 ^ nat (- k))"

definition round_half_even :: "real \<Rightarrow> int" where
  "round_half_even x =
     (if x - of_int \<lfloor>x\<rfloor> < 1 / 2 then \<lfloor>x\<rfloor>
      else if x - of_int \<lfloor>x\<rfloor> > 1 / 2 then \<lfloor>x\<rfloor> + 1
      else if even \<lfloor>x\<rfloor> then \<lfloor>x\<rfloor> else \<lfloor>x\<rfloor> + 1)"

definition round64 :: "real \<Rightarrow> real" where
  "round64 x =
     (if x = 0 then 0
      else sgn x * of_int (round_half_even (\<bar>x\<bar> / pow2 (binary_exponent \<bar>x\<bar> - 52)))
             * pow2 (binary_exponent \<bar>x\<bar> - 52))"

text \<open>
  The functions of the watcher over binary64: the same code as above, with the result of
  every subtraction, division, multiplication and addition of prices and percentages
  rounded. Differences of dates are integers of milliseconds and exact.
\<close>

definition js_div_f64 :: "real \<Rightarrow> real \<Rightarrow> jsnum" where
  "js_div_f64 a b =
     (if b \<noteq> 0 then JNum (round64 (a / b))
      else if a > 0 then JPosInf
      else if a < 0 then JNegInf
      else JNaN)"

fun js_times_f64 :: "jsnum \<Rightarrow> real \<Rightarrow> jsnum" where
  "js_times_f64 (JNum x) c = JNum (round64 (x * c))"
| "js_times_f64 JPosInf c = (if c > 0 then JPosInf else if c < 0 then JNegInf else JNaN)"
| "js_times_f64 JNegInf c = (if c > 0 then JNegInf else if c < 0 then JPosInf else JNaN)"
| "js_times_f64 JNaN c = JNaN"

definition priceChangePercent_js_f64 :: "real \<Rightarrow> real \<Rightarrow> jsnum" where
  "priceChangePercent_js_f64 price entry =
     js_times_f64 (js_div_f64 (round64 (price - entry)) entry) 100"

definition updateTrailingStopLoss_f64 :: "trade \<Rightarrow> real \<Rightarrow> trade \<times> bool \<times> bool" where
  "updateTrailingStopLoss_f64 trade price =
     (let conditions = sellConditions trade in
      if \<not> truthy (takeProfitPercentage conditions) \<or> \<not> truthy (trailingStopPercentage conditions)
      then (trade, False, False)
      else
        let raised = (\<not> truthy (highestPrice trade) \<or> price > the (highestPrice trade));
            trade1 = (if raised then trade\<lparr>highestPrice := Some price\<rparr> else trade);
            tpPerc = round64 (the (takeProfitPercentage conditions) / 100);
            trailPerc = round64 (the (trailingStopPercentage conditions) / 100)
        in
          if \<not> truthy_bool (trailingStopActivated conditions) then
            (if js_ge (priceChangePercent_js_f64 price (entryPrice trade))
                  (the (takeProfitPercentage conditions))
             then (trade1\<lparr>sellConditions := conditions
                       \<lparr>trailingStopActivated := Some True,
                        stepLevel := Some 1,
                        currStopPrice := Some (round64 (price * round64 (1 - trailPerc))),
                        nextTargetPrice := Some (round64 (price * round64 (1 + tpPerc)))\<rparr>\<rparr>, True, True)
             else (trade1, False, raised))
          else if truthy (nextTargetPrice conditions) then
            (if price \<ge> the (nextTargetPrice conditions)
             then (trade1\<lparr>sellConditions := conditions
                       \<lparr>stepLevel := Some ((if truthy_int (stepLevel conditions)
                                             then the (stepLevel conditions) else 1) + 1),
                        currStopPrice := Some (round64 (price * round64 (1 - trailPerc))),
                        nextTargetPrice := Some (round64 (price * round64 (1 + tpPerc)))\<rparr>\<rparr>, True, True)
             else (trade1, True, raised))
          else (trade1, True, raised))"

definition holdTimeMinutes_f64 :: "int \<Rightarrow> trade \<Rightarrow> real" where
  "holdTimeMinutes_f64 now trade = round64 (real_of_int (now - openedAt trade) / (1000 * 60))"

definition priceChangePercent_f64 :: "trade \<Rightarrow> real \<Rightarrow> real" where
  "priceChangePercent_f64 trade price =
     (if entryPrice trade > 0
      then round64 (round64 (round64 (price - entryPrice trade) / entryPrice trade) * 100)
      else 0)"

definition checkSellConditions_f64 :: "int \<Rightarrow> trade \<Rightarrow> real \<Rightarrow> sell_reason option" where
  "checkSellConditions_f64 now trade price =
     (let conditions = sellConditions trade;
          pct = priceChangePercent_f64 trade price;
          held = holdTimeMinutes_f64 now trade
      in
        if truthy (maxHoldTimeMinutes conditions) \<and> held \<ge> the (maxHoldTimeMinutes conditions)
          then Some (MaxHoldTimeReached held)
        else if truthy (stopLossPercentage conditions) \<and> pct \<le> - the (stopLossPercentage conditions)
          then Some (StopLossTriggered pct)
        else if truthy (takeProfitPercentage conditions) \<and> \<not> truthy (trailingStopPercentage conditions)
                \<and> pct \<ge> the (takeProfitPercentage conditions)
          then Some (TakeProfitReached pct)
        else if truthy_bool (trailingStopActivated conditions) \<and> truthy (currStopPrice conditions) then
          (if price \<le> the (currStopPrice conditions)
           then Some (SteppedStopTriggered (priceChangePercent_js_f64 price (entryPrice trade))
                        (the (currStopPrice conditions)))
           else None)
        else if truthy (trailingStopPercentage conditions) \<and> \<not> truthy (takeProfitPercentage conditions)
                \<and> truthy (highestPrice trade) then
          (let trailingDropPercent =
                 round64 (round64 (round64 (price - the (highestPrice trade)) / the (highestPrice trade)) * 100)
           in if trailingDropPercent \<le> - the (trailingStopPercentage conditions)
              then Some (TrailingStopTriggered trailingDropPercent) else None)
        else None)"

fun run_trailing_f64 :: "trade \<Rightarrow> real list \<Rightarrow> trade" where
  "run_trailing_f64 trade [] = trade"
| "run_trailing_f64 trade (p # ps) = run_trailing_f64 (fst (updateTrailingStopLoss_f64 trade p)) ps"

text \<open>
  One evaluation of an open trade by the watcher, over binary64: the max-hold test first,
  then the cached price, the price extrema, the trailing-stop update and the exit
  conditions.
\<close>

definition evaluateTrade :: "watch_env \<Rightarrow> trade \<Rightarrow> effect list" where
  "evaluateTrade env trade =
     (let held = holdTimeMinutes_f64 (now_evaluate env) trade;
          maxHold = maxHoldTimeMinutes (sellConditions trade)
      in
        if truthy maxHold \<and> held \<ge> the maxHold then
          executeSell (processingTrades env) (performSwap env) trade
            (MaxHoldTimeReached held) (num_or (getCachedPrice env) 0)
        else
          (case getCachedPrice env of
             None \<Rightarrow>
               if hasPriceError env then
                 [CloseTrade \<lparr>cp_tradeId = trade_id trade, cp_exitPrice = 0,
                    cp_exitAmount = entryAmount trade, cp_sellTransactionId = None,
                    cp_sellReason = Some ForceClosePricingError\<rparr>]
               else []
           | Some price \<Rightarrow>
               let t1 = trade\<lparr>currentPrice := Some price, lastPriceUpdate := Some (now_priceUpdate env)\<rparr>;
                   t2 = (if \<not> truthy (highestPrice t1) \<or> price > the (highestPrice t1)
                         then t1\<lparr>highestPrice := Some price\<rparr> else t1);
                   t3 = (if \<not> truthy (lowestPrice t2) \<or> price < the (lowestPrice t2)
                         then t2\<lparr>lowestPrice := Some price\<rparr> else t2);
                   t4 = fst (updateTrailingStopLoss_f64 t3 price)
               in UpdateTrade t4 # EmitPriceUpdate (tokenMint t4) price #
                    (case checkSellConditions_f64 (now_check env) t4 price of
                       None \<Rightarrow> []
                     | Some r \<Rightarrow>
                         executeSell (processingTrades env) (performSwap env) t4 r price)))"


section \<open>Scenario data and auxiliary predicates\<close>

text \<open>
  The position of the stepped-trailing test script and of scenario S1: entry price 100,
  100 tokens, take profit 50 percent, trailing stop 10 percent, trailing not yet active.
\<close>

definition s1_conditions :: sell_conditions where
  "s1_conditions =
     empty_conditions\<lparr>takeProfitPercentage := Some 50, trailingStopPercentage := Some 10,
                       trailingStopActivated := Some False\<rparr>"

definition s1_trade :: trade where
  "s1_trade = new_trade 0 ''trade_1''
     \<lparr>p_agentId = ''test_agent'', p_tokenMint = ''TEST_MINT'', p_entryPrice = 100,
      p_entryAmount = 100, p_sellConditions = Some s1_conditions\<rparr>"

text \<open>The same position with the stop loss of 20 percent that the risk configuration adds.\<close>

definition s1_stoploss_trade :: trade where
  "s1_stoploss_trade = new_trade 0 ''trade_2''
     \<lparr>p_agentId = ''test_agent'', p_tokenMint = ''TEST_MINT'', p_entryPrice = 100,
      p_entryAmount = 100,
      p_sellConditions = Some (s1_conditions\<lparr>stopLossPercentage := Some 20\<rparr>)\<rparr>"

definition is_stepped_stop :: "sell_reason option \<Rightarrow> bool" where
  "is_stepped_stop r = (case r of Some (SteppedStopTriggered _ _) \<Rightarrow> True | _ \<Rightarrow> False)"


text \<open>A position like that of S1 whose recorded entry price is 0.\<close>

definition zero_entry_trade :: trade where
  "zero_entry_trade = new_trade 0 ''trade_3''
     \<lparr>p_agentId = ''test_agent'', p_tokenMint = ''TEST_MINT'', p_entryPrice = 0,
      p_entryAmount = 100, p_sellConditions = Some s1_conditions\<rparr>"



text \<open>
  Scenario S3: a position opened at instant 0 with a maximum hold time of 60 minutes,
  evaluated exactly 60 minutes later while the price cache has no price for its token and
  the negative price cache has an entry; the swap backend reports success without an
  execution price.
\<close>

definition s3_trade :: trade where
  "s3_trade = new_trade 0 ''trade_4''
     \<lparr>p_agentId = ''test_agent'', p_tokenMint = ''TEST_MINT'', p_entryPrice = 1,
      p_entryAmount = 100,
      p_sellConditions = Some (empty_conditions\<lparr>maxHoldTimeMinutes := Some 60\<rparr>)\<rparr>"

definition plain_swap :: swap_result where
  "plain_swap = \<lparr>success = True, message = None, data_txid = None, swapResponse_txid = None,
     swapResponse_transactionId = None, rate_executionPrice = None, rate_amountIn = None\<rparr>"

definition s3_env :: watch_env where
  "s3_env = \<lparr>now_evaluate = 3600000, now_priceUpdate = 3600000, now_check = 3600000,
     getCachedPrice = None, hasPriceError = True, processingTrades = {},
     performSwap = Returns plain_swap\<rparr>"


text \<open>
  A store holding the position of S1, a request to close it at price 150 for its 100
  tokens, and a store with one position opened at price 10.
\<close>

definition s1_store :: store where
  "s1_store = storeTrade empty_store s1_trade"

definition s1_close :: close_params where
  "s1_close = \<lparr>cp_tradeId = ''trade_1'', cp_exitPrice = 150, cp_exitAmount = 100,
     cp_sellTransactionId = Some ''tx_1'', cp_sellReason = Some (TakeProfitReached 50)\<rparr>"

definition c9_store :: store where
  "c9_store = snd (createTrade empty_store 0 ''trade_5''
     \<lparr>p_agentId = ''test_agent'', p_tokenMint = ''TEST_MINT'', p_entryPrice = 10,
      p_entryAmount = 100, p_sellConditions = None\<rparr>)"


text \<open>
  An evaluation whose prediction is rejected: the filter passes and the prediction service
  does not approve.
\<close>

definition rejects :: "eval_env \<Rightarrow> bool" where
  "rejects env = (filterPasses env \<and> \<not> approved (predict (predictTrade env)))"

text \<open>
  An engine that has seen nothing yet, and collaborators whose prediction endpoint answers
  with the label \<^verbatim>\<open>bad\<close>.
\<close>

definition empty_bot :: bot where
  "empty_bot = \<lparr>bot_cache = empty_cache, tokensEvaluated = 0, tradesExecuted = 0,
     predictCalls = [], swapCalls = []\<rparr>"

definition default_risk :: risk_config where
  "default_risk = \<lparr>rc_takeProfitPercentage = 50, rc_stopLossPercentage = 20,
     rc_trailingStopEnabled = True, rc_trailingStopPercentage = Some 10\<rparr>"

definition rejecting_env :: eval_env where
  "rejecting_env = \<lparr>filterPasses = True,
     predictTrade = Returns \<lparr>taskType = ''classification'', classLabel = Some ''bad'',
                             probability = Some (9 / 10)\<rparr>,
     buySwap = Throws, buyAmount = 1 / 10, risk = default_risk\<rparr>"


text \<open>
  Scenario S6: a buy request for a token, and the cache in which the pending-trade lock of
  that token was taken at instant 0.
\<close>

definition c2_request :: trade_request where
  "c2_request = \<lparr>rq_tokenMint = ''tokenX'', rq_amount = 1 / 10, rq_riskConfig = default_risk\<rparr>"

definition c2_locked :: cache where
  "c2_locked = snd (acquirePendingTradeLock False 0 empty_cache ''tokenX'')"







text \<open>
  The position of S1 with a take profit of 58 percent: at price 158 the exact change is 58
  percent and the computed one is just below it.
\<close>

definition boundary_trade :: trade where
  "boundary_trade = new_trade 0 ''trade_7''
     \<lparr>p_agentId = ''test_agent'', p_tokenMint = ''TEST_MINT'', p_entryPrice = 100,
      p_entryAmount = 100,
      p_sellConditions = Some (s1_conditions\<lparr>takeProfitPercentage := Some 58\<rparr>)\<rparr>"

text \<open>
  Scenario S3 again with a cached price of 5 and a swap backend that reports the
  execution price 4.
\<close>

definition c4_env :: watch_env where
  "c4_env = \<lparr>now_evaluate = 3600000, now_priceUpdate = 3600000, now_check = 3600000,
     getCachedPrice = Some 5, hasPriceError = False, processingTrades = {},
     performSwap = Returns (plain_swap\<lparr>rate_executionPrice := Some 4\<rparr>)\<rparr>"


section \<open>Facts about the exact functions\<close>

lemmas s1_defs = s1_trade_def s1_conditions_def new_trade_def empty_conditions_def

lemmas trailing_defs = updateTrailingStopLoss_def priceChangePercent_js_def js_div_def Let_def





section \<open>The stepped trailing stop\<close>

text \<open>
  The rounding is to a nearest number of the binary64 grid. For a positive \<open>a\<close>,
  \<open>binary_exponent a\<close> is the exponent of its binade; the scaled magnitude of a non-zero
  \<open>x\<close> lies in \<open>[2^52, 2^53)\<close>, so the rounded significand is an integer of 53 bits (or
  \<open>2^53\<close>, the first number of the next binade); and \<open>round64 x\<close> is within half a unit in
  the last place of \<open>x\<close>. Ties go to the even significand by the definition of
  \<open>round_half_even\<close>.
\<close>

lemma ilog2_bounds: "0 < n \<Longrightarrow> 2 ^ ilog2 n \<le> n \<and> n < 2 ^ Suc (ilog2 n)"
proof (induction n rule: ilog2.induct)
  case (1 n)
  show ?case
  proof (cases "n < 2")
    case True
    with 1(2) have "n = 1" by simp
    then show ?thesis by (simp add: ilog2.simps)
  next
    case False
    then have pos: "0 < n div 2" by simp
    have eq: "ilog2 n = Suc (ilog2 (n div 2))" using False by (subst ilog2.simps) simp
    from 1(1) [OF False pos]
    have lo: "2 ^ ilog2 (n div 2) \<le> n div 2" and hi: "n div 2 < 2 ^ Suc (ilog2 (n div 2))"
      by simp_all
    have "2 * 2 ^ ilog2 (n div 2) \<le> n" using lo by linarith
    moreover have "n < 2 * 2 ^ Suc (ilog2 (n div 2))" using hi by linarith
    ultimately show ?thesis by (simp add: eq)
  qed
qed

lemma pow2_Suc: "pow2 (k + 1) = 2 * pow2 k"
proof (cases "0 \<le> k")
  case True
  then have "nat (k + 1) = Suc (nat k)" by simp
  then show ?thesis using True by (simp add: pow2_def)
next
  case False
  then have "nat (- k) = Suc (nat (- (k + 1)))" by simp
  then show ?thesis using False by (simp add: pow2_def)
qed

lemma pow2_pos: "0 < pow2 k"
  by (simp add: pow2_def)

lemma pow2_nat: "pow2 (int k) = 2 ^ k"
  by (simp add: pow2_def)

lemma pow2_neg_Suc: "pow2 (- int (Suc k)) = 1 / 2 ^ Suc k"
  by (simp add: pow2_def nat_add_distrib)

lemma ilog2_bounds_real:
  assumes "0 < n"
  shows "(2::real) ^ ilog2 n \<le> real n" and "real n + 1 \<le> 2 ^ Suc (ilog2 n)"
proof -
  from ilog2_bounds [OF assms] have lo: "2 ^ ilog2 n \<le> n" and hi: "Suc n \<le> 2 ^ Suc (ilog2 n)"
    by simp_all
  from of_nat_mono [OF lo, where 'a = real] show "(2::real) ^ ilog2 n \<le> real n" by simp
  from of_nat_mono [OF hi, where 'a = real] show "real n + 1 \<le> 2 ^ Suc (ilog2 n)" by simp
qed

lemma binary_exponent_bounds:
  assumes "0 < a"
  shows "pow2 (binary_exponent a) \<le> a \<and> a < pow2 (binary_exponent a + 1)"
proof (cases "1 \<le> a")
  case True
  define n where "n = nat \<lfloor>a\<rfloor>"
  have fl: "1 \<le> \<lfloor>a\<rfloor>" using True by simp
  have n0: "0 < n" using fl by (simp add: n_def)
  have rn: "real n = of_int \<lfloor>a\<rfloor>" using fl by (simp add: n_def)
  have n1: "real n \<le> a" unfolding rn by (rule of_int_floor_le)
  have n2: "a < real n + 1" unfolding rn by linarith
  have e: "binary_exponent a = int (ilog2 n)" using True by (simp add: binary_exponent_def n_def)
  note b = ilog2_bounds_real [OF n0]
  have "pow2 (binary_exponent a) \<le> a" unfolding e pow2_nat using b(1) n1 by linarith
  moreover have "a < pow2 (binary_exponent a + 1)"
    unfolding e pow2_Suc pow2_nat using b(2) n2 by simp
  ultimately show ?thesis by (rule conjI)
next
  case False
  define y where "y = 1 / a"
  have y: "1 < y" using False assms by (simp add: y_def)
  define n where "n = nat (\<lceil>y\<rceil> - 1)"
  have c: "1 < \<lceil>y\<rceil>" using y by linarith
  have n0: "0 < n" using c by (simp add: n_def)
  have rn: "real n = of_int \<lceil>y\<rceil> - 1" using c by (simp add: n_def)
  have n1: "real n < y" unfolding rn by linarith
  have n2: "y \<le> real n + 1" unfolding rn by linarith
  have e: "binary_exponent a = - int (Suc (ilog2 n))"
    using False by (simp add: binary_exponent_def n_def y_def)
  note b = ilog2_bounds_real [OF n0]
  have a: "a = 1 / y" using assms by (simp add: y_def)
  have p2: "pow2 (- int (Suc (ilog2 n)) + 1) = 1 / 2 ^ ilog2 n"
    unfolding pow2_Suc pow2_neg_Suc by simp
  have y1: "y \<le> 2 ^ Suc (ilog2 n)" using b(2) n2 by linarith
  have y2: "(2::real) ^ ilog2 n < y" using b(1) n1 by linarith
  have ypos: "0 < y" using y by linarith
  have r1: "1 / 2 ^ Suc (ilog2 n) \<le> a"
    unfolding a by (rule divide_left_mono [OF y1]) (simp_all add: ypos)
  have r2: "a < 1 / 2 ^ ilog2 n"
    unfolding a by (rule divide_strict_left_mono [OF y2]) (simp_all add: ypos)
  show ?thesis unfolding e pow2_neg_Suc p2 using r1 r2 by (intro conjI)
qed

lemma round_half_even_nearest: "\<bar>of_int (round_half_even y) - y\<bar> \<le> 1 / 2"
  unfolding round_half_even_def by (auto simp: abs_if) linarith+

lemma round_half_even_mono_int: "of_int k \<le> y \<Longrightarrow> k \<le> round_half_even y"
  unfolding round_half_even_def by (auto simp: le_floor_iff) linarith+

lemma round_half_even_le_int: "y \<le> of_int k \<Longrightarrow> round_half_even y \<le> k"
  unfolding round_half_even_def by (auto) linarith+

lemma pow2_add_nat: "pow2 (k + int m) = 2 ^ m * pow2 k"
proof (induction m)
  case 0
  show ?case by simp
next
  case (Suc m)
  have "k + int (Suc m) = (k + int m) + 1" by simp
  then have "pow2 (k + int (Suc m)) = pow2 ((k + int m) + 1)" by (rule arg_cong)
  also have "\<dots> = 2 * pow2 (k + int m)" by (rule pow2_Suc)
  finally show ?case by (simp add: Suc)
qed

lemma scaled_magnitude:
  assumes "x \<noteq> 0"
  shows "2 ^ 52 \<le> \<bar>x\<bar> / pow2 (binary_exponent \<bar>x\<bar> - 52)"
    and "\<bar>x\<bar> / pow2 (binary_exponent \<bar>x\<bar> - 52) < 2 ^ 53"
proof -
  define s where "s = pow2 (binary_exponent \<bar>x\<bar> - 52)"
  have s: "0 < s" by (simp add: s_def pow2_pos)
  have pos: "0 < \<bar>x\<bar>" using assms by simp
  have e0: "pow2 (binary_exponent \<bar>x\<bar>) = 2 ^ 52 * s"
    using pow2_add_nat [of "binary_exponent \<bar>x\<bar> - 52" 52] by (simp add: s_def)
  have "binary_exponent \<bar>x\<bar> + 1 = binary_exponent \<bar>x\<bar> - 52 + int 53" by simp
  then have "pow2 (binary_exponent \<bar>x\<bar> + 1) = pow2 (binary_exponent \<bar>x\<bar> - 52 + int 53)"
    by (rule arg_cong)
  then have e1: "pow2 (binary_exponent \<bar>x\<bar> + 1) = 2 ^ 53 * s"
    unfolding pow2_add_nat s_def .
  from binary_exponent_bounds [OF pos]
  have lo: "2 ^ 52 * s \<le> \<bar>x\<bar>" and hi: "\<bar>x\<bar> < 2 ^ 53 * s"
    unfolding e0 e1 by simp_all
  show "2 ^ 52 \<le> \<bar>x\<bar> / pow2 (binary_exponent \<bar>x\<bar> - 52)"
    unfolding s_def [symmetric] using lo s by (simp add: pos_le_divide_eq)
  show "\<bar>x\<bar> / pow2 (binary_exponent \<bar>x\<bar> - 52) < 2 ^ 53"
    unfolding s_def [symmetric] using hi s by (simp add: pos_divide_less_eq)
qed

lemma round64_significand:
  assumes "x \<noteq> 0"
  shows "2 ^ 52 \<le> round_half_even (\<bar>x\<bar> / pow2 (binary_exponent \<bar>x\<bar> - 52))
       \<and> round_half_even (\<bar>x\<bar> / pow2 (binary_exponent \<bar>x\<bar> - 52)) \<le> 2 ^ 53"
proof -
  have "of_int (2 ^ 52) \<le> \<bar>x\<bar> / pow2 (binary_exponent \<bar>x\<bar> - 52)"
    using scaled_magnitude(1) [OF assms] by simp
  then have lo: "2 ^ 52 \<le> round_half_even (\<bar>x\<bar> / pow2 (binary_exponent \<bar>x\<bar> - 52))"
    by (rule round_half_even_mono_int)
  have "\<bar>x\<bar> / pow2 (binary_exponent \<bar>x\<bar> - 52) \<le> of_int (2 ^ 53)"
    using scaled_magnitude(2) [OF assms] by simp
  then have hi: "round_half_even (\<bar>x\<bar> / pow2 (binary_exponent \<bar>x\<bar> - 52)) \<le> 2 ^ 53"
    by (rule round_half_even_le_int)
  from lo hi show ?thesis by (rule conjI)
qed

lemma round64_nearest:
  assumes "x \<noteq> 0"
  shows "\<bar>round64 x - x\<bar> \<le> pow2 (binary_exponent \<bar>x\<bar> - 52) / 2"
proof -
  define s where "s = pow2 (binary_exponent \<bar>x\<bar> - 52)"
  define m where "m = round_half_even (\<bar>x\<bar> / s)"
  have s: "0 < s" by (simp add: s_def pow2_pos)
  have r: "round64 x = sgn x * of_int m * s" using assms by (simp add: round64_def s_def m_def)
  have x: "x = sgn x * (\<bar>x\<bar> / s) * s" using s by (simp add: sgn_mult_abs)
  have "round64 x - x = sgn x * (of_int m - \<bar>x\<bar> / s) * s"
    unfolding r by (subst (2) x) (simp add: algebra_simps)
  then have "\<bar>round64 x - x\<bar> = \<bar>of_int m - \<bar>x\<bar> / s\<bar> * s"
    using assms s by (simp add: abs_mult abs_sgn_eq)
  also have "\<dots> \<le> (1 / 2) * s"
    using round_half_even_nearest [of "\<bar>x\<bar> / s"] s unfolding m_def
    by (intro mult_right_mono) simp_all
  finally show ?thesis by (simp add: s_def)
qed

lemmas round64_eval = round64_def binary_exponent_def pow2_def round_half_even_def ilog2.simps

text \<open>
  \<open>round64\<close> on numbers whose binary64 value is well known: 0.1, 0.3, the sum 0.1 + 0.2
  (which is not the double 0.3), the tie \<open>2^53 + 1\<close>, and a negative number.
\<close>

lemma round64_known_values:
  "round64 (1 / 10) = 3602879701896397 / 36028797018963968"
  "round64 (3 / 10) = 5404319552844595 / 18014398509481984"
  "round64 (round64 (1 / 10) + round64 (2 / 10)) = 5404319552844596 / 18014398509481984"
  "round64 9007199254740993 = 9007199254740992"
  "round64 (- (1 / 3)) = - (6004799503160661 / 18014398509481984)"
  by (simp_all add: round64_eval)

lemmas trailing_f64_defs = updateTrailingStopLoss_f64_def priceChangePercent_js_f64_def
  js_div_f64_def Let_def

lemma update_f64_inactive:
  assumes "takeProfitPercentage (sellConditions t) = Some tp" "tp \<noteq> 0"
      and "trailingStopPercentage (sellConditions t) = Some tr" "tr \<noteq> 0"
      and "\<not> truthy_bool (trailingStopActivated (sellConditions t))"
      and "entryPrice t \<noteq> 0"
  shows "sellConditions (fst (updateTrailingStopLoss_f64 t p)) =
           (if tp \<le> round64 (round64 (round64 (p - entryPrice t) / entryPrice t) * 100)
            then (sellConditions t)\<lparr>trailingStopActivated := Some True, stepLevel := Some 1,
                   currStopPrice := Some (round64 (p * round64 (1 - round64 (tr / 100)))),
                   nextTargetPrice := Some (round64 (p * round64 (1 + round64 (tp / 100))))\<rparr>
            else sellConditions t)"
  using assms by (simp add: trailing_f64_defs)

lemma update_f64_active:
  assumes "takeProfitPercentage (sellConditions t) = Some tp" "tp \<noteq> 0"
      and "trailingStopPercentage (sellConditions t) = Some tr" "tr \<noteq> 0"
      and "truthy_bool (trailingStopActivated (sellConditions t))"
  shows "sellConditions (fst (updateTrailingStopLoss_f64 t p)) =
           (if truthy (nextTargetPrice (sellConditions t)) \<and> p \<ge> the (nextTargetPrice (sellConditions t))
            then (sellConditions t)\<lparr>stepLevel := Some ((if truthy_int (stepLevel (sellConditions t))
                                             then the (stepLevel (sellConditions t)) else 1) + 1),
                   currStopPrice := Some (round64 (p * round64 (1 - round64 (tr / 100)))),
                   nextTargetPrice := Some (round64 (p * round64 (1 + round64 (tp / 100))))\<rparr>
            else sellConditions t)"
  using assms by (simp add: updateTrailingStopLoss_f64_def Let_def)

lemma stepped_stop_f64_iff:
  assumes "truthy (trailingStopPercentage (sellConditions t))"
  shows "is_stepped_stop (checkSellConditions_f64 now t p) \<longleftrightarrow>
           truthy_bool (trailingStopActivated (sellConditions t))
         \<and> truthy (currStopPrice (sellConditions t))
         \<and> p \<le> the (currStopPrice (sellConditions t))
         \<and> \<not> (truthy (maxHoldTimeMinutes (sellConditions t))
               \<and> holdTimeMinutes_f64 now t \<ge> the (maxHoldTimeMinutes (sellConditions t)))
         \<and> \<not> (truthy (stopLossPercentage (sellConditions t))
               \<and> priceChangePercent_f64 t p \<le> - the (stopLossPercentage (sellConditions t)))"
  using assms by (auto simp add: checkSellConditions_f64_def Let_def is_stepped_stop_def)

lemma s1_f64_after_140:
  "sellConditions (run_trailing_f64 s1_trade [140]) = s1_conditions"
  by (simp add: s1_defs trailing_f64_defs round64_eval)

lemma s1_f64_after_150:
  "sellConditions (run_trailing_f64 s1_trade [140, 150]) =
     s1_conditions\<lparr>trailingStopActivated := Some True, stepLevel := Some 1,
                   currStopPrice := Some 135, nextTargetPrice := Some 225\<rparr>"
  by (simp add: s1_defs trailing_f64_defs round64_eval)

lemma s1_f64_after_200:
  "sellConditions (run_trailing_f64 s1_trade [140, 150, 200]) =
     s1_conditions\<lparr>trailingStopActivated := Some True, stepLevel := Some 1,
                   currStopPrice := Some 135, nextTargetPrice := Some 225\<rparr>"
  by (simp add: s1_defs trailing_f64_defs round64_eval)

lemma s1_f64_after_230:
  "sellConditions (run_trailing_f64 s1_trade [140, 150, 200, 230]) =
     s1_conditions\<lparr>trailingStopActivated := Some True, stepLevel := Some 2,
                   currStopPrice := Some 207, nextTargetPrice := Some 345\<rparr>"
  by (simp add: s1_defs trailing_f64_defs round64_eval)

lemma s1_f64_exit_at_200:
  "checkSellConditions_f64 now (run_trailing_f64 s1_trade [140, 150, 200, 230, 200]) 200 =
     Some (SteppedStopTriggered (JNum 100) 207)"
  by (simp add: s1_defs trailing_f64_defs checkSellConditions_f64_def priceChangePercent_f64_def
        round64_eval)

lemma boundary_58:
  "priceChangePercent_js_f64 158 100 = JNum (8162774324609023 / 140737488355328)
   \<and> (8162774324609023 / 140737488355328 :: real) < 58
   \<and> sellConditions (fst (updateTrailingStopLoss_f64 boundary_trade 158)) = sellConditions boundary_trade"
  by (simp add: boundary_trade_def s1_defs trailing_f64_defs round64_eval)

text \<open>
  Claim C1, as the spec states it, lets the exit with reason "stepped stop" fire exactly
  when trailing is active and the price is at or below \<^verbatim>\<open>currStopPrice\<close>. The code checks
  the stop loss first: the position of S1 with a stop loss of 20 percent activates at 150
  (stop 135); at price 70 trailing is active and 70 is below the stop, yet the reason
  returned is the stop loss at -30 percent, not the stepped stop.
\<close>

theorem C1_stepped_stop_counterexample:
  "truthy_bool (trailingStopActivated (sellConditions (run_trailing_f64 s1_stoploss_trade [150, 70])))
   \<and> currStopPrice (sellConditions (run_trailing_f64 s1_stoploss_trade [150, 70])) = Some 135
   \<and> checkSellConditions_f64 0 (run_trailing_f64 s1_stoploss_trade [150, 70]) 70
       = Some (StopLossTriggered (- 30))
   \<and> \<not> is_stepped_stop (checkSellConditions_f64 0 (run_trailing_f64 s1_stoploss_trade [150, 70]) 70)"
  by (simp add: s1_stoploss_trade_def s1_defs trailing_f64_defs checkSellConditions_f64_def
        priceChangePercent_f64_def holdTimeMinutes_f64_def is_stepped_stop_def round64_eval)

text \<open>
  Claim C1, amended. For every position whose take-profit and trailing-stop percentages are
  configured (set and non-zero), one price update of the trailing-stop state machine does
  this to the sell conditions, all arithmetic being that of doubles. While inactive, for an
  entry price other than 0: if the computed percentage change
  \<^verbatim>\<open>((price - entryPrice) / entryPrice) * 100\<close> is at least the take-profit percentage, the
  machine activates with step level 1, stop price \<^verbatim>\<open>price * (1 - trailingStopPct / 100)\<close>
  and next target \<^verbatim>\<open>price * (1 + takeProfitPct / 100)\<close>; otherwise nothing changes.
  (What an entry price of 0 does is left to claim C3.) While active: if the next target is
  set and non-zero and the price has reached it, the step level becomes the old one (1
  when it is unset or zero) plus one and both prices are recomputed from the price by the
  same formulas; otherwise nothing changes. The exit check returns the reason "stepped
  stop" exactly when trailing is active, the stop price is set and non-zero, the price is
  at or below it, and neither the max-hold exit nor the stop-loss exit, which are checked
  first, applies. On the position of S1 the prices 140, 150, 200, 230 leave the machine
  inactive, then active at level 1 with stop 135 and target 225, then unchanged, then at
  level 2 with stop 207 and target 345, and the following price 200 exits with the
  stepped stop. On a position entered at 100 with a take profit of 58 percent the price
  158 does not activate the machine: the computed change is just below 58.
\<close>

theorem C1_stepped_trailing_state_machine:
  assumes "takeProfitPercentage (sellConditions t) = Some tp" and "tp \<noteq> 0"
      and "trailingStopPercentage (sellConditions t) = Some tr" and "tr \<noteq> 0"
  shows "(\<not> truthy_bool (trailingStopActivated (sellConditions t)) \<and> entryPrice t \<noteq> 0 \<longrightarrow>
            sellConditions (fst (updateTrailingStopLoss_f64 t p)) =
              (if tp \<le> round64 (round64 (round64 (p - entryPrice t) / entryPrice t) * 100)
               then (sellConditions t)\<lparr>trailingStopActivated := Some True, stepLevel := Some 1,
                      currStopPrice := Some (round64 (p * round64 (1 - round64 (tr / 100)))),
                      nextTargetPrice := Some (round64 (p * round64 (1 + round64 (tp / 100))))\<rparr>
               else sellConditions t))
       \<and> (truthy_bool (trailingStopActivated (sellConditions t)) \<longrightarrow>
            sellConditions (fst (updateTrailingStopLoss_f64 t p)) =
              (if truthy (nextTargetPrice (sellConditions t)) \<and> p \<ge> the (nextTargetPrice (sellConditions t))
               then (sellConditions t)\<lparr>stepLevel := Some ((if truthy_int (stepLevel (sellConditions t))
                                                then the (stepLevel (sellConditions t)) else 1) + 1),
                      currStopPrice := Some (round64 (p * round64 (1 - round64 (tr / 100)))),
                      nextTargetPrice := Some (round64 (p * round64 (1 + round64 (tp / 100))))\<rparr>
               else sellConditions t))
       \<and> (is_stepped_stop (checkSellConditions_f64 now t p) \<longleftrightarrow>
             truthy_bool (trailingStopActivated (sellConditions t))
           \<and> truthy (currStopPrice (sellConditions t))
           \<and> p \<le> the (currStopPrice (sellConditions t))
           \<and> \<not> (truthy (maxHoldTimeMinutes (sellConditions t))
                 \<and> round64 (real_of_int (now - openedAt t) / 60000)
                       \<ge> the (maxHoldTimeMinutes (sellConditions t)))
           \<and> \<not> (truthy (stopLossPercentage (sellConditions t))
                 \<and> (if entryPrice t > 0
                      then round64 (round64 (round64 (p - entryPrice t) / entryPrice t) * 100)
                      else 0) \<le> - the (stopLossPercentage (sellConditions t))))
       \<and> sellConditions (run_trailing_f64 s1_trade [140]) = s1_conditions
       \<and> sellConditions (run_trailing_f64 s1_trade [140, 150]) =
           s1_conditions\<lparr>trailingStopActivated := Some True, stepLevel := Some 1,
                         currStopPrice := Some 135, nextTargetPrice := Some 225\<rparr>
       \<and> sellConditions (run_trailing_f64 s1_trade [140, 150, 200]) =
           s1_conditions\<lparr>trailingStopActivated := Some True, stepLevel := Some 1,
                         currStopPrice := Some 135, nextTargetPrice := Some 225\<rparr>
       \<and> sellConditions (run_trailing_f64 s1_trade [140, 150, 200, 230]) =
           s1_conditions\<lparr>trailingStopActivated := Some True, stepLevel := Some 2,
                         currStopPrice := Some 207, nextTargetPrice := Some 345\<rparr>
       \<and> checkSellConditions_f64 now (run_trailing_f64 s1_trade [140, 150, 200, 230, 200]) 200 =
           Some (SteppedStopTriggered (JNum 100) 207)
       \<and> sellConditions (fst (updateTrailingStopLoss_f64 boundary_trade 158)) =
           sellConditions boundary_trade"
proof -
  have cfg: "truthy (trailingStopPercentage (sellConditions t))"
    using assms by simp
  have inactive: "\<not> truthy_bool (trailingStopActivated (sellConditions t)) \<and> entryPrice t \<noteq> 0 \<longrightarrow>
            sellConditions (fst (updateTrailingStopLoss_f64 t p)) =
              (if tp \<le> round64 (round64 (round64 (p - entryPrice t) / entryPrice t) * 100)
               then (sellConditions t)\<lparr>trailingStopActivated := Some True, stepLevel := Some 1,
                      currStopPrice := Some (round64 (p * round64 (1 - round64 (tr / 100)))),
                      nextTargetPrice := Some (round64 (p * round64 (1 + round64 (tp / 100))))\<rparr>
               else sellConditions t)"
    using update_f64_inactive [OF assms, of p] by blast
  show ?thesis
    using inactive update_f64_active [OF assms, of p]
      stepped_stop_f64_iff [OF cfg, of now p]
      s1_f64_after_140 s1_f64_after_150 s1_f64_after_200 s1_f64_after_230
      s1_f64_exit_at_200 [of now] boundary_58
    unfolding holdTimeMinutes_f64_def priceChangePercent_f64_def
    by simp
qed

text \<open>
  The theorem on the position of S1 once it is active (after 140 and 150), for the price
  230: the position is configured as the theorem asks, and the ratchet step it describes
  gives level 2, stop 207 and target 345.
\<close>

theorem C1_stepped_trailing_state_machine_witness:
  "takeProfitPercentage (sellConditions (run_trailing_f64 s1_trade [140, 150])) = Some 50
   \<and> trailingStopPercentage (sellConditions (run_trailing_f64 s1_trade [140, 150])) = Some 10
   \<and> truthy_bool (trailingStopActivated (sellConditions (run_trailing_f64 s1_trade [140, 150])))
   \<and> sellConditions (fst (updateTrailingStopLoss_f64 (run_trailing_f64 s1_trade [140, 150]) 230)) =
       s1_conditions\<lparr>trailingStopActivated := Some True, stepLevel := Some 2,
                     currStopPrice := Some 207, nextTargetPrice := Some 345\<rparr>"
proof -
  have tp: "takeProfitPercentage (sellConditions (run_trailing_f64 s1_trade [140, 150])) = Some 50"
    and tr: "trailingStopPercentage (sellConditions (run_trailing_f64 s1_trade [140, 150])) = Some 10"
    and act: "truthy_bool (trailingStopActivated (sellConditions (run_trailing_f64 s1_trade [140, 150])))"
    by (simp_all add: s1_f64_after_150 s1_conditions_def empty_conditions_def
          del: run_trailing_f64.simps)
  have nz: "(50::real) \<noteq> 0" "(10::real) \<noteq> 0" by simp_all
  have r: "round64 (230 * round64 (1 - round64 (10 / 100))) = 207"
    "round64 (230 * round64 (1 + round64 (50 / 100))) = 345"
    by (simp_all add: round64_eval)
  note step = C1_stepped_trailing_state_machine [OF tp nz(1) tr nz(2), of 230 0,
      THEN conjunct2, THEN conjunct1, THEN mp, OF act, unfolded r]
  show ?thesis
    using step tp tr act
    by (simp add: s1_f64_after_150 s1_conditions_def empty_conditions_def
          del: run_trailing_f64.simps)
qed


section \<open>The ratchet never loosens\<close>










section \<open>A zero entry price\<close>

text \<open>
  Claim C3 asks that a position with entry price 0 never divides by zero: the percentage
  change is 0 and the trailing stop never activates. \<^verbatim>\<open>checkSellConditions\<close> guards the
  division (\<^verbatim>\<open>entryPrice > 0\<close>, else 0 percent); \<^verbatim>\<open>updateTrailingStopLoss\<close> does not.
  For the inactive position with entry price 0, take profit 50 and trailing stop 10, the
  price 1 gives \<^verbatim>\<open>((1 - 0) / 0) * 100 = Infinity\<close>, which is at least 50, and the stop
  activates at level 1 with stop price 0.9 and next target 1.5.
\<close>

theorem C3_zero_entry_price_activates:
  "entryPrice zero_entry_trade = 0
   \<and> \<not> truthy_bool (trailingStopActivated (sellConditions zero_entry_trade))
   \<and> priceChangePercent zero_entry_trade 1 = 0
   \<and> priceChangePercent_js 1 (entryPrice zero_entry_trade) = JPosInf
   \<and> sellConditions (fst (updateTrailingStopLoss zero_entry_trade 1)) =
       s1_conditions\<lparr>trailingStopActivated := Some True, stepLevel := Some 1,
                     currStopPrice := Some (9 / 10), nextTargetPrice := Some (3 / 2)\<rparr>"
  by (simp add: zero_entry_trade_def s1_defs trailing_defs priceChangePercent_def)

text \<open>
  Read off the evaluation: after the update at price 1 the position with entry price 0 has
  its trailing stop active, at step level 1.
\<close>

theorem C3_zero_entry_price_activates_witness:
  "truthy_bool (trailingStopActivated (sellConditions (fst (updateTrailingStopLoss zero_entry_trade 1))))
   \<and> stepLevel (sellConditions (fst (updateTrailingStopLoss zero_entry_trade 1))) = Some 1"
  using C3_zero_entry_price_activates by simp

section \<open>The max-hold exit\<close>

text \<open>
  Claim C4 has the time-based sell use the last cached price or 0 as the exit price.
  \<^verbatim>\<open>executeSell\<close> takes the execution price of the swap's reply first and falls back to
  the price it was handed: on the position of S3 at exactly 60 minutes, with 5 cached and a
  swap that reports the execution price 4, the position is closed at 4.
\<close>

theorem C4_exit_price_counterexample:
  "maxHoldTimeMinutes (sellConditions s3_trade) = Some 60
   \<and> round64 (real_of_int (now_evaluate c4_env - openedAt s3_trade) / 60000) = 60
   \<and> getCachedPrice c4_env = Some 5
   \<and> evaluateTrade c4_env s3_trade =
       [PerformSwapSell ''TEST_MINT'' 100,
        CloseTrade \<lparr>cp_tradeId = ''trade_4'', cp_exitPrice = 4, cp_exitAmount = 100,
                    cp_sellTransactionId = Some ''unknown_tx'',
                    cp_sellReason = Some (MaxHoldTimeReached 60)\<rparr>]"
  by (simp add: evaluateTrade_def executeSell_def holdTimeMinutes_f64_def c4_env_def s3_trade_def
        new_trade_def empty_conditions_def plain_swap_def num_or_def str_or_def Let_def
        round64_eval)

text \<open>
  Claim C4, amended. For every position whose \<^verbatim>\<open>maxHoldTimeMinutes\<close> is set (and
  non-zero, which is how the code tests that it is set) and every watcher evaluation at
  which the milliseconds since \<^verbatim>\<open>openedAt\<close>, divided by 60000 as doubles are, are at
  least that many minutes (equality included), \<^verbatim>\<open>evaluateTrade\<close> does nothing but call \<^verbatim>\<open>executeSell\<close>
  with the reason "max hold time reached" and with the cached price, or 0 when there is
  none, whatever the price cache and the negative price cache answer. When the position
  is not already being sold, the first effect is the sell on the swap backend. When the
  swap succeeds, the position is closed with that reason at the swap's execution price if
  the reply has a non-zero one, and else at the cached price or 0. When the swap throws,
  nothing is closed; when it reports a failure, either nothing is closed or (the failure
  telling of a missing balance) the position is force-closed with exit amount 0 at the
  cached price or 0.
\<close>

theorem C4_max_hold_short_circuit:
  assumes "maxHoldTimeMinutes (sellConditions trade) = Some m" and "m \<noteq> 0"
      and "m \<le> round64 (real_of_int (now_evaluate env - openedAt trade) / 60000)"
  shows "evaluateTrade env trade =
           executeSell (processingTrades env) (performSwap env) trade
             (MaxHoldTimeReached (round64 (real_of_int (now_evaluate env - openedAt trade) / 60000)))
             (num_or (getCachedPrice env) 0)
       \<and> (trade_id trade \<notin> processingTrades env \<longrightarrow>
            (\<exists>rest. evaluateTrade env trade =
                      PerformSwapSell (tokenMint trade) (entryAmount trade) # rest))
       \<and> (\<forall>result. trade_id trade \<notin> processingTrades env \<and> performSwap env = Returns result
                    \<and> success result \<longrightarrow>
            (\<exists>cp. evaluateTrade env trade =
                     [PerformSwapSell (tokenMint trade) (entryAmount trade), CloseTrade cp]
                 \<and> cp_tradeId cp = trade_id trade
                 \<and> cp_sellReason cp =
                     Some (MaxHoldTimeReached (round64 (real_of_int (now_evaluate env - openedAt trade) / 60000)))
                 \<and> cp_exitPrice cp =
                     num_or (rate_executionPrice result) (num_or (getCachedPrice env) 0)))
       \<and> (trade_id trade \<notin> processingTrades env \<and> performSwap env = Throws \<longrightarrow>
            evaluateTrade env trade = [PerformSwapSell (tokenMint trade) (entryAmount trade)])
       \<and> (\<forall>result. trade_id trade \<notin> processingTrades env \<and> performSwap env = Returns result
                    \<and> \<not> success result \<longrightarrow>
            evaluateTrade env trade = [PerformSwapSell (tokenMint trade) (entryAmount trade)]
          \<or> (\<exists>cp. evaluateTrade env trade =
                     [PerformSwapSell (tokenMint trade) (entryAmount trade), CloseTrade cp]
                 \<and> cp_tradeId cp = trade_id trade
                 \<and> cp_exitAmount cp = 0
                 \<and> cp_exitPrice cp = num_or (getCachedPrice env) 0))"
proof -
  have first: "evaluateTrade env trade =
           executeSell (processingTrades env) (performSwap env) trade
             (MaxHoldTimeReached (round64 (real_of_int (now_evaluate env - openedAt trade) / 60000)))
             (num_or (getCachedPrice env) 0)"
    using assms by (simp add: evaluateTrade_def holdTimeMinutes_f64_def Let_def)
  have second: "trade_id trade \<notin> processingTrades env \<longrightarrow>
            (\<exists>rest. evaluateTrade env trade =
                      PerformSwapSell (tokenMint trade) (entryAmount trade) # rest)"
    unfolding first by (simp add: executeSell_def)
  have third: "\<forall>result. trade_id trade \<notin> processingTrades env \<and> performSwap env = Returns result
                    \<and> success result \<longrightarrow>
            (\<exists>cp. evaluateTrade env trade =
                     [PerformSwapSell (tokenMint trade) (entryAmount trade), CloseTrade cp]
                 \<and> cp_tradeId cp = trade_id trade
                 \<and> cp_sellReason cp =
                     Some (MaxHoldTimeReached (round64 (real_of_int (now_evaluate env - openedAt trade) / 60000)))
                 \<and> cp_exitPrice cp =
                     num_or (rate_executionPrice result) (num_or (getCachedPrice env) 0))"
    unfolding first by (auto simp add: executeSell_def num_or_def split: option.splits)
  have fourth: "trade_id trade \<notin> processingTrades env \<and> performSwap env = Throws \<longrightarrow>
            evaluateTrade env trade = [PerformSwapSell (tokenMint trade) (entryAmount trade)]"
    unfolding first by (simp add: executeSell_def)
  have fifth: "\<forall>result. trade_id trade \<notin> processingTrades env \<and> performSwap env = Returns result
                    \<and> \<not> success result \<longrightarrow>
            evaluateTrade env trade = [PerformSwapSell (tokenMint trade) (entryAmount trade)]
          \<or> (\<exists>cp. evaluateTrade env trade =
                     [PerformSwapSell (tokenMint trade) (entryAmount trade), CloseTrade cp]
                 \<and> cp_tradeId cp = trade_id trade
                 \<and> cp_exitAmount cp = 0
                 \<and> cp_exitPrice cp = num_or (getCachedPrice env) 0)"
    unfolding first by (auto simp add: executeSell_def num_or_def split: option.splits)
  from first second third fourth fifth show ?thesis by blast
qed

text \<open>
  The theorem on scenario S3: exactly 60 minutes have elapsed, no price is cached and the
  token has a pricing error; the position is sold and closed at exit price 0.
\<close>

theorem C4_max_hold_short_circuit_witness:
  "maxHoldTimeMinutes (sellConditions s3_trade) = Some 60 \<and> (60::real) \<noteq> 0
   \<and> round64 (real_of_int (now_evaluate s3_env - openedAt s3_trade) / 60000) = 60
   \<and> getCachedPrice s3_env = None \<and> hasPriceError s3_env
   \<and> evaluateTrade s3_env s3_trade =
       [PerformSwapSell ''TEST_MINT'' 100,
        CloseTrade \<lparr>cp_tradeId = ''trade_4'', cp_exitPrice = 0, cp_exitAmount = 100,
                    cp_sellTransactionId = Some ''unknown_tx'',
                    cp_sellReason = Some (MaxHoldTimeReached 60)\<rparr>]"
proof -
  have h1: "maxHoldTimeMinutes (sellConditions s3_trade) = Some 60"
    by (simp add: s3_trade_def new_trade_def empty_conditions_def)
  have h2: "(60::real) \<noteq> 0" by simp
  have held: "round64 (real_of_int (now_evaluate s3_env - openedAt s3_trade) / 60000) = 60"
    by (simp add: s3_env_def s3_trade_def new_trade_def round64_eval)
  have h3: "60 \<le> round64 (real_of_int (now_evaluate s3_env - openedAt s3_trade) / 60000)"
    using held by simp
  have sell: "executeSell (processingTrades s3_env) (performSwap s3_env) s3_trade
             (MaxHoldTimeReached 60) (num_or (getCachedPrice s3_env) 0) =
       [PerformSwapSell ''TEST_MINT'' 100,
        CloseTrade \<lparr>cp_tradeId = ''trade_4'', cp_exitPrice = 0, cp_exitAmount = 100,
                    cp_sellTransactionId = Some ''unknown_tx'',
                    cp_sellReason = Some (MaxHoldTimeReached 60)\<rparr>]"
    by (simp add: executeSell_def s3_env_def s3_trade_def new_trade_def plain_swap_def
          num_or_def str_or_def)
  show ?thesis
    using C4_max_hold_short_circuit [OF h1 h2 h3, THEN conjunct1] h1 held sell
    by (simp add: s3_env_def)
qed


section \<open>The prediction gate\<close>



section \<open>Closing a position\<close>

lemma json_trade_fields [simp]:
  "trade_id (json_trade t) = trade_id t" "status (json_trade t) = status t"
  "agentId (json_trade t) = agentId t" "tokenMint (json_trade t) = tokenMint t"
  "lowestPrice (json_trade t) = lowestPrice t" "highestPrice (json_trade t) = highestPrice t"
  "currentPrice (json_trade t) = currentPrice t" "lastPriceUpdate (json_trade t) = lastPriceUpdate t"
  by (simp_all add: json_trade_def)

lemma storeTrade_lookup:
  "trades (storeTrade st t) k = (if k = trade_id t then Some (json_trade t) else trades st k)"
  by (simp add: storeTrade_def)

lemma storeTrade_keyed_by_id:
  assumes "\<And>k u. trades st k = Some u \<Longrightarrow> trade_id u = k"
      and "trades (storeTrade st t) k = Some u"
  shows "trade_id u = k"
  using assms by (auto simp: storeTrade_lookup split: if_splits)

text \<open>
  Claim C8. \<^verbatim>\<open>closeTrade\<close> returns \<^verbatim>\<open>null\<close> exactly when the store has no position
  under the id, and then leaves the store as it was. When the store has the position
  (filed under its own id, as \<^verbatim>\<open>storeTrade\<close> files every position), the returned position
  is closed, \<^verbatim>\<open>closedAt\<close> is the instant of the call, \<^verbatim>\<open>exitValue\<close> is exit price times
  exit amount, \<^verbatim>\<open>realizedPnL\<close> is exit value minus entry value,
  \<^verbatim>\<open>realizedPnLPercentage\<close> is \<^verbatim>\<open>(realizedPnL / entryValue) * 100\<close> as JavaScript computes
  it, the id is out of the open set and in the closed set, and the position the store
  holds afterwards is closed: closing never leaves or makes a position open.
\<close>

theorem C8_close_trade:
  "(fst (closeTrade st now params) = None \<longleftrightarrow> getTrade st (cp_tradeId params) = None)
   \<and> (getTrade st (cp_tradeId params) = None \<longrightarrow> snd (closeTrade st now params) = st)
   \<and> (\<forall>t. getTrade st (cp_tradeId params) = Some t \<and> trade_id t = cp_tradeId params \<longrightarrow>
         (\<exists>t'. fst (closeTrade st now params) = Some t'
            \<and> status t' = Closed
            \<and> closedAt t' = Some now
            \<and> exitValue t' = Some (cp_exitPrice params * cp_exitAmount params)
            \<and> realizedPnL t' = Some (cp_exitPrice params * cp_exitAmount params - entryValue t)
            \<and> realizedPnLPercentage t' =
                Some (js_times (js_div (cp_exitPrice params * cp_exitAmount params - entryValue t)
                                  (entryValue t)) 100)
            \<and> cp_tradeId params \<notin> open_trades (snd (closeTrade st now params))
            \<and> cp_tradeId params \<in> closed_trades (snd (closeTrade st now params))
            \<and> map_option status (getTrade (snd (closeTrade st now params)) (cp_tradeId params))
                = Some Closed))"
proof (cases "getTrade st (cp_tradeId params)")
  case None
  then show ?thesis by (simp add: closeTrade_def)
next
  case (Some t)
  then show ?thesis
    by (simp add: closeTrade_def Let_def getTrade_def storeTrade_def)
qed

text \<open>
  The theorem on the store holding the position of S1: closing it at 150 gives exit value
  15000, profit 5000 and 50 percent, and moves the id to the closed set; closing an id the
  store does not know returns \<^verbatim>\<open>null\<close> and changes nothing.
\<close>

theorem C8_close_trade_witness:
  "getTrade s1_store ''trade_1'' = Some s1_trade \<and> trade_id s1_trade = ''trade_1''
   \<and> ''trade_1'' \<in> open_trades s1_store
   \<and> (\<exists>t'. fst (closeTrade s1_store 5 s1_close) = Some t'
          \<and> status t' = Closed \<and> closedAt t' = Some 5 \<and> exitValue t' = Some 15000
          \<and> realizedPnL t' = Some 5000 \<and> realizedPnLPercentage t' = Some (JNum 50)
          \<and> ''trade_1'' \<notin> open_trades (snd (closeTrade s1_store 5 s1_close))
          \<and> ''trade_1'' \<in> closed_trades (snd (closeTrade s1_store 5 s1_close))
          \<and> map_option status (getTrade (snd (closeTrade s1_store 5 s1_close)) ''trade_1'')
               = Some Closed)
   \<and> fst (closeTrade s1_store 5 (s1_close\<lparr>cp_tradeId := ''trade_0''\<rparr>)) = None
   \<and> snd (closeTrade s1_store 5 (s1_close\<lparr>cp_tradeId := ''trade_0''\<rparr>)) = s1_store"
proof -
  have g: "getTrade s1_store ''trade_1'' = Some s1_trade"
    by (simp add: getTrade_def s1_store_def storeTrade_def json_trade_def s1_defs)
  have i: "trade_id s1_trade = ''trade_1''" and ev: "entryValue s1_trade = 10000"
    by (simp_all add: s1_defs)
  have o: "''trade_1'' \<in> open_trades s1_store"
    by (simp add: s1_store_def storeTrade_def s1_defs)
  have n: "getTrade s1_store ''trade_0'' = None"
    by (simp add: getTrade_def s1_store_def storeTrade_def empty_store_def s1_defs)
  have p: "cp_tradeId s1_close = ''trade_1''" "cp_exitPrice s1_close = 150"
    "cp_exitAmount s1_close = 100"
    by (simp_all add: s1_close_def)
  have q: "cp_tradeId (s1_close\<lparr>cp_tradeId := ''trade_0''\<rparr>) = ''trade_0''" by simp
  have pct: "js_times (js_div 5000 10000) 100 = JNum 50"
    "(150::real) * 100 = 15000" "(15000::real) - 10000 = 5000"
    by (simp_all add: js_div_def)
  note unknown = C8_close_trade [of s1_store 5 "s1_close\<lparr>cp_tradeId := ''trade_0''\<rparr>", unfolded q]
  have u1: "fst (closeTrade s1_store 5 (s1_close\<lparr>cp_tradeId := ''trade_0''\<rparr>)) = None"
    using unknown [THEN conjunct1] n by (rule iffD2)
  have u2: "snd (closeTrade s1_store 5 (s1_close\<lparr>cp_tradeId := ''trade_0''\<rparr>)) = s1_store"
    using unknown [THEN conjunct2, THEN conjunct1] n by (rule mp)
  have hyp: "getTrade s1_store ''trade_1'' = Some s1_trade \<and> trade_id s1_trade = ''trade_1''"
    using g i by (rule conjI)
  note known = C8_close_trade [of s1_store 5 s1_close, unfolded p, THEN conjunct2, THEN conjunct2,
      THEN spec, of s1_trade, THEN mp, OF hyp, unfolded ev pct]
  show ?thesis
    using g i o known u1 u2 by (intro conjI)
qed


section \<open>Price extrema\<close>

text \<open>
  Claim C9 says that \<^verbatim>\<open>updateTradePrice\<close> extends the extrema monotonically, so that
  \<^verbatim>\<open>lowestPrice\<close> never increases. The code replaces an extremum when it is falsy
  (\<^verbatim>\<open>!trade.lowestPrice || currentPrice < trade.lowestPrice\<close>), and the number 0 is falsy.
  On the open position entered at price 10, the update to price 0 records the lowest price
  0, and the next update to price 5 replaces it: the lowest price rises from 0 to 5, where
  the minimum of 0 and 5 is 0.
\<close>

theorem C9_lowest_price_rises:
  "map_option status (getTrade (updateTradePrice c9_store 1 1 ''trade_5'' 0) ''trade_5'') = Some Open
   \<and> map_option lowestPrice (getTrade c9_store ''trade_5'') = Some (Some 10)
   \<and> map_option lowestPrice (getTrade (updateTradePrice c9_store 1 1 ''trade_5'' 0) ''trade_5'')
       = Some (Some 0)
   \<and> map_option lowestPrice
       (getTrade (updateTradePrice (updateTradePrice c9_store 1 1 ''trade_5'' 0) 2 2 ''trade_5'' 5)
          ''trade_5'') = Some (Some 5)"
  by (simp add: c9_store_def createTrade_def updateTradePrice_def getTrade_def storeTrade_lookup
        new_trade_def Let_def)

text \<open>
  Read off the evaluation: after the two updates the lowest price is not the minimum of
  the prices 0 and 5.
\<close>

theorem C9_lowest_price_rises_witness:
  "map_option lowestPrice
     (getTrade (updateTradePrice (updateTradePrice c9_store 1 1 ''trade_5'' 0) 2 2 ''trade_5'' 5)
        ''trade_5'') \<noteq> Some (Some (min 0 5))"
  using C9_lowest_price_rises by auto

text \<open>
  What does hold: a position that is not open is left as it is, and extrema that are set
  and non-zero are extended to the maximum and the minimum.
\<close>

lemma updateTradePrice_not_open:
  assumes "getTrade st k = Some t" "status t \<noteq> Open"
  shows "updateTradePrice st n1 n2 k p = st"
  using assms by (simp add: updateTradePrice_def)

lemma updateTradePrice_extrema_nonzero:
  assumes "getTrade st k = Some t" "trade_id t = k" "status t = Open"
      and "highestPrice t = Some h" "h \<noteq> 0" "lowestPrice t = Some l" "l \<noteq> 0"
  shows "map_option highestPrice (getTrade (updateTradePrice st n1 n2 k p) k) = Some (Some (max h p))
       \<and> map_option lowestPrice (getTrade (updateTradePrice st n1 n2 k p) k) = Some (Some (min l p))"
proof (cases "p > h")
  case hi: True
  show ?thesis
  proof (cases "p < l")
    case True
    with hi assms show ?thesis
      by (simp add: updateTradePrice_def getTrade_def storeTrade_lookup Let_def)
  next
    case False
    with hi assms show ?thesis
      by (simp add: updateTradePrice_def getTrade_def storeTrade_lookup Let_def)
  qed
next
  case hi: False
  show ?thesis
  proof (cases "p < l")
    case True
    with hi assms show ?thesis
      by (simp add: updateTradePrice_def getTrade_def storeTrade_lookup Let_def)
  next
    case False
    with hi assms show ?thesis
      by (simp add: updateTradePrice_def getTrade_def storeTrade_lookup Let_def)
  qed
qed

section \<open>Prediction retries\<close>

lemma processToken_short_circuit:
  "isInSet now (prediction_failed (bot_cache b)) token \<Longrightarrow> processToken now env hm b token = b"
  by (simp add: processToken_def)

lemma processToken_rejected:
  assumes "\<not> isTokenProcessed now (bot_cache b) token"
      and "\<not> isInSet now (prediction_failed (bot_cache b)) token"
      and "rejects env"
  shows "predictCalls (processToken now env True b token) = predictCalls b @ [token]"
    and "prediction_retry (bot_cache (processToken now env True b token)) token =
           Some (getPredictionRetryCount now (bot_cache b) token + 1, now + RETRY_TTL * 1000)"
    and "processed_tokens (bot_cache (processToken now env True b token)) = processed_tokens (bot_cache b)"
    and "prediction_failed (bot_cache (processToken now env True b token)) =
           (if getPredictionRetryCount now (bot_cache b) token + 1 \<ge> MAX_PREDICTION_RETRIES
            then addToSet now (prediction_failed (bot_cache b)) token RETRY_TTL
            else prediction_failed (bot_cache b))"
  using assms
  by (simp_all add: processToken_def evaluateAndExecute_def rejects_def Let_def
        incrementPredictionRetryCount_def markPredictionFailed_def)

lemma isInSet_later:
  "\<not> isInSet now s v \<Longrightarrow> now \<le> now' \<Longrightarrow> \<not> isInSet now' s v"
  by (auto simp: isInSet_def)

lemma isInSet_addToSet:
  "now \<le> now' \<Longrightarrow> now' < now + ttl * 1000 \<Longrightarrow> isInSet now' (addToSet now s v ttl) v"
  by (simp add: isInSet_def addToSet_def)

lemma retry_count_read:
  "prediction_retry c token = Some (n, e) \<Longrightarrow> now < e \<Longrightarrow> getPredictionRetryCount now c token = n"
  by (simp add: getPredictionRetryCount_def)

lemma three_rejections:
  assumes np: "\<not> isTokenProcessed t1 (bot_cache b0) token"
      and nf: "\<not> isInSet t1 (prediction_failed (bot_cache b0)) token"
      and zero: "getPredictionRetryCount t1 (bot_cache b0) token = 0"
      and rej: "rejects e1" "rejects e2" "rejects e3"
      and times: "t1 \<le> t2" "t2 < t1 + 3600000" "t2 \<le> t3" "t3 < t2 + 3600000"
                 "t3 \<le> t4" "t4 < t3 + 3600000"
  shows "predictCalls (processToken t3 e3 True (processToken t2 e2 True
            (processToken t1 e1 True b0 token) token) token) = predictCalls b0 @ [token, token, token]
       \<and> processToken t4 e4 hm (processToken t3 e3 True (processToken t2 e2 True
            (processToken t1 e1 True b0 token) token) token) token
           = processToken t3 e3 True (processToken t2 e2 True
            (processToken t1 e1 True b0 token) token) token"
proof -
  let ?b1 = "processToken t1 e1 True b0 token"
  let ?b2 = "processToken t2 e2 True ?b1 token"
  let ?b3 = "processToken t3 e3 True ?b2 token"
  note r1 = processToken_rejected [OF np nf rej(1)]
  have c1: "getPredictionRetryCount t2 (bot_cache ?b1) token = 1"
    using retry_count_read [OF r1(2), of t2] times zero by (simp add: RETRY_TTL_def)
  have np1: "\<not> isTokenProcessed t2 (bot_cache ?b1) token"
    using np times(1) isInSet_later [of t1 "processed_tokens (bot_cache b0)" token t2]
    by (simp add: isTokenProcessed_def r1(3))
  have nf1: "\<not> isInSet t2 (prediction_failed (bot_cache ?b1)) token"
    using nf times(1) isInSet_later [of t1 "prediction_failed (bot_cache b0)" token t2] zero
    by (simp add: r1(4) MAX_PREDICTION_RETRIES_def)
  note r2 = processToken_rejected [OF np1 nf1 rej(2)]
  have c2: "getPredictionRetryCount t3 (bot_cache ?b2) token = 2"
    using retry_count_read [OF r2(2), of t3] times c1 by (simp add: RETRY_TTL_def)
  have np2: "\<not> isTokenProcessed t3 (bot_cache ?b2) token"
    using np1 times(3) isInSet_later [of t2 "processed_tokens (bot_cache ?b1)" token t3]
    by (simp add: isTokenProcessed_def r2(3))
  have nf2: "\<not> isInSet t3 (prediction_failed (bot_cache ?b2)) token"
    using nf1 times(3) isInSet_later [of t2 "prediction_failed (bot_cache ?b1)" token t3] c1
    by (simp add: r2(4) MAX_PREDICTION_RETRIES_def)
  note r3 = processToken_rejected [OF np2 nf2 rej(3)]
  have failed: "prediction_failed (bot_cache ?b3) =
                  addToSet t3 (prediction_failed (bot_cache ?b2)) token RETRY_TTL"
    using r3(4) c2 by (simp add: MAX_PREDICTION_RETRIES_def)
  have "isInSet t4 (prediction_failed (bot_cache ?b3)) token"
    unfolding failed using times(5,6) by (intro isInSet_addToSet) (simp_all add: RETRY_TTL_def)
  then have stop: "processToken t4 e4 hm ?b3 token = ?b3"
    by (rule processToken_short_circuit)
  have calls: "predictCalls ?b3 = predictCalls b0 @ [token, token, token]"
    using r1(1) r2(1) r3(1) by simp
  from calls stop show ?thesis by (rule conjI)
qed

lemmas engine_defs = processToken_def evaluateAndExecute_def incrementPredictionRetryCount_def
  markPredictionFailed_def getPredictionRetryCount_def isTokenProcessed_def isInSet_def
  addToSet_def MAX_PREDICTION_RETRIES_def RETRY_TTL_def predict_def num_or_def Let_def

text \<open>
  Claim C5 lets every evaluation after the token entered the failed set, and the fourth
  evaluation after three consecutive rejections, return without a prediction call. Both
  the retry count and the failed set are keys that expire after an hour. Four rejected
  evaluations two hours apart each find the count expired and make four prediction calls.
  And after three rejections at instants 0, 1000 and 2000 the token is in the failed set,
  yet an evaluation at instant 3602000, when that key has expired, calls the prediction
  service a fourth time.
\<close>

theorem C5_expired_keys_counterexample:
  "predictCalls (processToken 21600000 rejecting_env True (processToken 14400000 rejecting_env True
      (processToken 7200000 rejecting_env True (processToken 0 rejecting_env True empty_bot ''tokenX'')
        ''tokenX'') ''tokenX'') ''tokenX'') = [''tokenX'', ''tokenX'', ''tokenX'', ''tokenX'']
   \<and> isInSet 2000 (prediction_failed (bot_cache (processToken 2000 rejecting_env True
        (processToken 1000 rejecting_env True (processToken 0 rejecting_env True empty_bot ''tokenX'')
          ''tokenX'') ''tokenX''))) ''tokenX''
   \<and> predictCalls (processToken 3602000 rejecting_env True (processToken 2000 rejecting_env True
        (processToken 1000 rejecting_env True (processToken 0 rejecting_env True empty_bot ''tokenX'')
          ''tokenX'') ''tokenX'') ''tokenX'') = [''tokenX'', ''tokenX'', ''tokenX'', ''tokenX'']"
  by (simp add: engine_defs rejecting_env_def empty_bot_def empty_cache_def)

text \<open>
  Claim C5, amended. (1) While a token is in the \<^verbatim>\<open>bot:prediction_failed\<close> set, that is
  until the key of the set expires, \<^verbatim>\<open>processToken\<close> returns at once: the engine, and with
  it the list of prediction calls, is unchanged. (2) An evaluation that reaches the
  prediction service and is not approved calls it once and stores the token's retry count
  plus one under a key that expires one hour (3600 seconds) later; when that new count is
  at least 3, the token is added to the failed set, whose expiry is set to one hour later
  as well. (3) Starting from a token that is neither processed nor failed and has no live
  retry count, three rejected evaluations, each less than an hour after the one before,
  make three prediction calls, and a fourth evaluation less than an hour after the third
  changes nothing and so calls nothing.
\<close>

theorem C5_prediction_retry_bookkeeping:
  "(isInSet now (prediction_failed (bot_cache b)) token \<longrightarrow> processToken now env hm b token = b)
   \<and> (\<not> isTokenProcessed now (bot_cache b) token
        \<and> \<not> isInSet now (prediction_failed (bot_cache b)) token \<and> rejects env \<longrightarrow>
          predictCalls (processToken now env True b token) = predictCalls b @ [token]
        \<and> prediction_retry (bot_cache (processToken now env True b token)) token =
            Some (getPredictionRetryCount now (bot_cache b) token + 1, now + 3600 * 1000)
        \<and> (3 \<le> getPredictionRetryCount now (bot_cache b) token + 1 \<longrightarrow>
              prediction_failed (bot_cache (processToken now env True b token)) =
                addToSet now (prediction_failed (bot_cache b)) token 3600
            \<and> token \<in> fst (prediction_failed (bot_cache (processToken now env True b token)))
            \<and> snd (prediction_failed (bot_cache (processToken now env True b token))) =
                now + 3600 * 1000))
   \<and> (\<not> isTokenProcessed ta (bot_cache ba) token
        \<and> \<not> isInSet ta (prediction_failed (bot_cache ba)) token
        \<and> getPredictionRetryCount ta (bot_cache ba) token = 0
        \<and> rejects ea \<and> rejects eb \<and> rejects ec
        \<and> ta \<le> tb \<and> tb < ta + 3600000 \<and> tb \<le> tc \<and> tc < tb + 3600000
        \<and> tc \<le> td \<and> td < tc + 3600000 \<longrightarrow>
          predictCalls (processToken tc ec True (processToken tb eb True
              (processToken ta ea True ba token) token) token) = predictCalls ba @ [token, token, token]
        \<and> processToken td ed hm (processToken tc ec True (processToken tb eb True
              (processToken ta ea True ba token) token) token) token
            = processToken tc ec True (processToken tb eb True
              (processToken ta ea True ba token) token) token)"
proof (intro conjI impI)
  assume "isInSet now (prediction_failed (bot_cache b)) token"
  then show "processToken now env hm b token = b" by (rule processToken_short_circuit)
next
  assume a: "\<not> isTokenProcessed now (bot_cache b) token
        \<and> \<not> isInSet now (prediction_failed (bot_cache b)) token \<and> rejects env"
  note r = processToken_rejected [OF a [THEN conjunct1] a [THEN conjunct2, THEN conjunct1]
      a [THEN conjunct2, THEN conjunct2]]
  show "predictCalls (processToken now env True b token) = predictCalls b @ [token]"
    by (rule r(1))
  show "prediction_retry (bot_cache (processToken now env True b token)) token =
            Some (getPredictionRetryCount now (bot_cache b) token + 1, now + 3600 * 1000)"
    using r(2) by (simp add: RETRY_TTL_def)
  assume big: "3 \<le> getPredictionRetryCount now (bot_cache b) token + 1"
  then show f: "prediction_failed (bot_cache (processToken now env True b token)) =
                addToSet now (prediction_failed (bot_cache b)) token 3600"
    using r(4) by (simp add: MAX_PREDICTION_RETRIES_def RETRY_TTL_def)
  show "token \<in> fst (prediction_failed (bot_cache (processToken now env True b token)))"
    unfolding f by (simp add: addToSet_def)
  show "snd (prediction_failed (bot_cache (processToken now env True b token))) = now + 3600 * 1000"
    unfolding f by (simp add: addToSet_def)
next
  assume a: "\<not> isTokenProcessed ta (bot_cache ba) token
        \<and> \<not> isInSet ta (prediction_failed (bot_cache ba)) token
        \<and> getPredictionRetryCount ta (bot_cache ba) token = 0
        \<and> rejects ea \<and> rejects eb \<and> rejects ec
        \<and> ta \<le> tb \<and> tb < ta + 3600000 \<and> tb \<le> tc \<and> tc < tb + 3600000
        \<and> tc \<le> td \<and> td < tc + 3600000"
  then have three: "predictCalls (processToken tc ec True (processToken tb eb True
              (processToken ta ea True ba token) token) token) = predictCalls ba @ [token, token, token]
        \<and> processToken td ed hm (processToken tc ec True (processToken tb eb True
              (processToken ta ea True ba token) token) token) token
            = processToken tc ec True (processToken tb eb True
              (processToken ta ea True ba token) token) token"
    by (intro three_rejections) simp_all
  from three show "predictCalls (processToken tc ec True (processToken tb eb True
              (processToken ta ea True ba token) token) token) = predictCalls ba @ [token, token, token]"
    by (rule conjunct1)
  from three show "processToken td ed hm (processToken tc ec True (processToken tb eb True
              (processToken ta ea True ba token) token) token) token
            = processToken tc ec True (processToken tb eb True
              (processToken ta ea True ba token) token) token"
    by (rule conjunct2)
qed

text \<open>
  The theorem on a fresh engine: the token is rejected at instants 0, 1000 and 2000 and
  evaluated again at 3000; the prediction service has been called three times.
\<close>

theorem C5_prediction_retry_bookkeeping_witness:
  "\<not> isTokenProcessed 0 (bot_cache empty_bot) ''tokenX''
   \<and> \<not> isInSet 0 (prediction_failed (bot_cache empty_bot)) ''tokenX''
   \<and> getPredictionRetryCount 0 (bot_cache empty_bot) ''tokenX'' = 0
   \<and> rejects rejecting_env
   \<and> predictCalls (processToken 3000 rejecting_env True (processToken 2000 rejecting_env True
        (processToken 1000 rejecting_env True (processToken 0 rejecting_env True empty_bot ''tokenX'')
          ''tokenX'') ''tokenX'') ''tokenX'') = [''tokenX'', ''tokenX'', ''tokenX'']"
proof -
  have h: "\<not> isTokenProcessed 0 (bot_cache empty_bot) ''tokenX''"
    "\<not> isInSet 0 (prediction_failed (bot_cache empty_bot)) ''tokenX''"
    "getPredictionRetryCount 0 (bot_cache empty_bot) ''tokenX'' = 0"
    by (simp_all add: empty_bot_def empty_cache_def isTokenProcessed_def isInSet_def
          getPredictionRetryCount_def)
  have r: "rejects rejecting_env"
    by (simp add: rejects_def rejecting_env_def predict_def num_or_def)
  have e: "predictCalls empty_bot = []" by (simp add: empty_bot_def)
  have t: "(0::int) \<le> 1000" "(1000::int) < 0 + 3600000" "(1000::int) \<le> 2000"
    "(2000::int) < 1000 + 3600000" "(2000::int) \<le> 3000" "(3000::int) < 2000 + 3600000"
    by simp_all
  note c5 = C5_prediction_retry_bookkeeping [where ba = empty_bot and token = "''tokenX''"
      and ta = 0 and tb = 1000 and tc = 2000 and td = 3000
      and ea = rejecting_env and eb = rejecting_env and ec = rejecting_env
      and ed = rejecting_env and hm = True, THEN conjunct2, THEN conjunct2, THEN mp]
  have "predictCalls (processToken 2000 rejecting_env True (processToken 1000 rejecting_env True
              (processToken 0 rejecting_env True empty_bot ''tokenX'') ''tokenX'') ''tokenX'')
          = predictCalls empty_bot @ [''tokenX'', ''tokenX'', ''tokenX'']
        \<and> processToken 3000 rejecting_env True (processToken 2000 rejecting_env True
              (processToken 1000 rejecting_env True (processToken 0 rejecting_env True empty_bot ''tokenX'')
                 ''tokenX'') ''tokenX'') ''tokenX''
            = processToken 2000 rejecting_env True (processToken 1000 rejecting_env True
              (processToken 0 rejecting_env True empty_bot ''tokenX'') ''tokenX'') ''tokenX''"
    using h r t by (intro c5 conjI)
  then show ?thesis
    using h r e by simp
qed

section \<open>The pending-trade lock\<close>

text \<open>
  Claim C2 has \<^verbatim>\<open>TradeExecutor.execute\<close> acquire the per-token lock first and return a
  duplicate result, without a swap, when it cannot. The executor does not touch the lock
  (its own comment leaves duplicate checks to the orchestrator): with the lock of the token
  held until instant 60000, so that acquiring it at instant 1000 fails, \<^verbatim>\<open>execute\<close> at
  that instant still sends the swap to the backend and succeeds.
\<close>

theorem C2_execute_ignores_lock_counterexample:
  "pending_trade c2_locked ''tokenX'' = Some 60000
   \<and> fst (acquirePendingTradeLock False 1000 c2_locked ''tokenX'') = False
   \<and> tr_success (fst (execute 1000 c2_locked (Returns plain_swap) c2_request))
   \<and> map sw_mint (snd (snd (execute 1000 c2_locked (Returns plain_swap) c2_request))) = [''tokenX'']"
  by (simp add: c2_locked_def c2_request_def acquirePendingTradeLock_def empty_cache_def
        LOCK_TTL_def execute_def plain_swap_def Let_def)

lemma acquire_result:
  "fst (acquirePendingTradeLock fails now c token) \<longleftrightarrow>
     \<not> fails \<and> (case pending_trade c token of None \<Rightarrow> True | Some e \<Rightarrow> e \<le> now)"
  by (simp add: acquirePendingTradeLock_def split: option.splits)

lemma acquire_sets_ttl:
  "fst (acquirePendingTradeLock fails now c token) \<Longrightarrow>
     pending_trade (snd (acquirePendingTradeLock fails now c token)) token = Some (now + 60 * 1000)"
  by (simp add: acquirePendingTradeLock_def LOCK_TTL_def split: option.splits if_splits)

lemma acquire_failure_unchanged:
  "\<not> fst (acquirePendingTradeLock fails now c token) \<Longrightarrow>
     snd (acquirePendingTradeLock fails now c token) = c"
  by (simp add: acquirePendingTradeLock_def split: option.splits if_splits)

lemma execute_no_lock:
  "pending_trade (fst (snd (execute now c swap req))) = pending_trade c"
  by (simp add: execute_def Let_def markTokenProcessed_def deleteMindmapData_def
        split: io.splits)

lemma execute_always_swaps:
  "map sw_mint (snd (snd (execute now c swap req))) = [rq_tokenMint req]"
  by (simp add: execute_def Let_def split: io.splits)

text \<open>
  Claim C2, amended. \<^verbatim>\<open>acquirePendingTradeLock\<close> succeeds exactly when the cache command
  does not fail and the token's lock key is absent or expired; on success the key is set
  to expire 60 seconds later, on failure the cache is unchanged. So of two acquisitions
  for the same token, the second less than 60 seconds after the first succeeded and with
  no release between them, only the first succeeds. \<^verbatim>\<open>TradeExecutor.execute\<close> itself
  never reads or writes the lock and sends exactly one swap request for the token of
  every buy request.
\<close>

theorem C2_lock_primitive_and_execute:
  "(fst (acquirePendingTradeLock fails now c token) \<longleftrightarrow>
      \<not> fails \<and> (case pending_trade c token of None \<Rightarrow> True | Some e \<Rightarrow> e \<le> now))
   \<and> (fst (acquirePendingTradeLock fails now c token) \<longrightarrow>
        pending_trade (snd (acquirePendingTradeLock fails now c token)) token = Some (now + 60 * 1000))
   \<and> (\<not> fst (acquirePendingTradeLock fails now c token) \<longrightarrow>
        snd (acquirePendingTradeLock fails now c token) = c)
   \<and> (fst (acquirePendingTradeLock False now c token) \<and> now \<le> now' \<and> now' < now + 60000 \<longrightarrow>
        \<not> fst (acquirePendingTradeLock fails' now' (snd (acquirePendingTradeLock False now c token)) token))
   \<and> pending_trade (fst (snd (execute now c swap req))) = pending_trade c
   \<and> map sw_mint (snd (snd (execute now c swap req))) = [rq_tokenMint req]"
proof -
  have second: "fst (acquirePendingTradeLock False now c token) \<and> now \<le> now' \<and> now' < now + 60000 \<longrightarrow>
        \<not> fst (acquirePendingTradeLock fails' now' (snd (acquirePendingTradeLock False now c token)) token)"
  proof
    assume a: "fst (acquirePendingTradeLock False now c token) \<and> now \<le> now' \<and> now' < now + 60000"
    then have "pending_trade (snd (acquirePendingTradeLock False now c token)) token = Some (now + 60 * 1000)"
      using acquire_sets_ttl by blast
    with a show "\<not> fst (acquirePendingTradeLock fails' now' (snd (acquirePendingTradeLock False now c token)) token)"
      by (simp add: acquire_result)
  qed
  show ?thesis
    using acquire_result [of fails now c token] acquire_sets_ttl [of fails now c token]
      acquire_failure_unchanged [of fails now c token] second
      execute_no_lock [of now c swap req] execute_always_swaps [of now c swap req]
    by blast
qed

text \<open>
  The theorem on the empty cache: the lock of the token is acquired at instant 0 with
  expiry 60000, and a second acquisition at instant 1000 fails.
\<close>

theorem C2_lock_primitive_and_execute_witness:
  "fst (acquirePendingTradeLock False 0 empty_cache ''tokenX'')
   \<and> (0::int) \<le> 1000 \<and> (1000::int) < 0 + 60000
   \<and> pending_trade (snd (acquirePendingTradeLock False 0 empty_cache ''tokenX'')) ''tokenX'' = Some 60000
   \<and> \<not> fst (acquirePendingTradeLock False 1000
              (snd (acquirePendingTradeLock False 0 empty_cache ''tokenX'')) ''tokenX'')"
proof -
  have free: "pending_trade empty_cache ''tokenX'' = None" by (simp add: empty_cache_def)
  note c2 = C2_lock_primitive_and_execute [of False 0 empty_cache "''tokenX''" 1000 False]
  have first: "fst (acquirePendingTradeLock False 0 empty_cache ''tokenX'')"
    using c2 [THEN conjunct1] free by simp
  have t: "(0::int) \<le> 1000" "(1000::int) < 0 + 60000" by simp_all
  have ttl: "pending_trade (snd (acquirePendingTradeLock False 0 empty_cache ''tokenX'')) ''tokenX'' = Some 60000"
    using c2 [THEN conjunct2, THEN conjunct1] first by simp
  have second: "\<not> fst (acquirePendingTradeLock False 1000
              (snd (acquirePendingTradeLock False 0 empty_cache ''tokenX'')) ''tokenX'')"
    using c2 [THEN conjunct2, THEN conjunct2, THEN conjunct2, THEN conjunct1] first t by simp
  from first t ttl second show ?thesis by simp
qed


section \<open>The filter's signal override\<close>












end
